theory Spec2Isabelle
  imports Complex_Main
begin

section \<open>Information-flow metrics of \<^verbatim>\<open>information-flow-metrics.js\<close>\<close>

text \<open>
  A shallow embedding of the class \<^verbatim>\<open>InformationFlowAnalyzer\<close>: the walk over the
  syntax tree (\<^verbatim>\<open>analyzeAST\<close>, \<^verbatim>\<open>extractCalls\<close>, \<^verbatim>\<open>getCalleeName\<close>), the
  aggregation (\<^verbatim>\<open>calculateFanInFanOut\<close>) and the derived metrics
  (\<^verbatim>\<open>calculateCoupling\<close>, \<^verbatim>\<open>calculateCohesion\<close>,
  \<^verbatim>\<open>calculateInformationFlowComplexity\<close>).
\<close>

subsection \<open>JavaScript strings\<close>

text \<open>\<^verbatim>\<open>s.startsWith(t)\<close> and \<^verbatim>\<open>s.includes(t)\<close>: \<open>t\<close> occurs in \<open>s\<close> as a
  contiguous run of characters.\<close>

fun startsWith :: "string \<Rightarrow> string \<Rightarrow> bool" where
  "startsWith s [] = True"
| "startsWith [] (c # t) = False"
| "startsWith (d # s) (c # t) = (d = c \<and> startsWith s t)"

fun str_includes :: "string \<Rightarrow> string \<Rightarrow> bool" where
  "str_includes [] t = (t = [])"
| "str_includes (d # s) t = (startsWith (d # s) t \<or> str_includes s t)"

text \<open>\<^verbatim>\<open>s.split('.')\<close>: the pieces between the dots; never the empty list.\<close>

fun split_dot :: "string \<Rightarrow> string list" where
  "split_dot [] = [[]]"
| "split_dot (c # s) =
     (if c = CHR ''.'' then [] # split_dot s
      else (case split_dot s of [] \<Rightarrow> [[c]] | p # ps \<Rightarrow> (c # p) # ps))"

text \<open>The decimal numeral a template literal prints for a non-negative integer.\<close>

definition digit :: "nat \<Rightarrow> char" where
  "digit d = char_of (48 + d)"

fun str_of_nat :: "nat \<Rightarrow> string" where
  "str_of_nat n = (if n < 10 then [digit n] else str_of_nat (n div 10) @ [digit (n mod 10)])"

declare str_of_nat.simps [simp del]

text \<open>Truthiness of a string value: only the empty string is falsy.\<close>

definition truthy :: "string \<Rightarrow> bool" where
  "truthy s = (s \<noteq> [])"

subsection \<open>The syntax tree\<close>

text \<open>
  The tree is the one the parser returns (ESTree). The node kinds the analyzer inspects are
  constructors of their own, with the fields the analyzer reads and their child nodes in the
  key order of the parser's node objects (the order in which \<^verbatim>\<open>for (const key in node)\<close>
  meets them); every other kind is \<open>Other\<close> with its type name and its child nodes in key
  order. Keys holding no node (\<^verbatim>\<open>loc\<close>, \<^verbatim>\<open>range\<close>, flags, \<^verbatim>\<open>null\<close> children) are
  met by both traversals without any effect and are left out, as is the \<^verbatim>\<open>Identifier\<close>
  under the \<^verbatim>\<open>id\<close> key of a function, of which only the name is kept. The number in a
  call, member or function node is \<^verbatim>\<open>loc.start.line\<close>. The type name of an \<open>Other\<close>
  node is none of the nine types that have a constructor; an identifier's name is the only
  \<^verbatim>\<open>name\<close> property in the tree.
\<close>

datatype literal = LString string | LOther

datatype node =
    Identifier string
  | Literal literal
  | CallExpression nat node "node list"
  | MemberExpression nat node node
  | FunctionDeclaration nat "string option" "node list" node
  | FunctionExpression nat "string option" "node list" node
  | ArrowFunctionExpression nat "node list" node
  | VariableDeclarator node "node option"
  | Property node node
  | Other string "node list"

fun is_function_node :: "node \<Rightarrow> bool" where
  "is_function_node (FunctionDeclaration l i ps b) = True"
| "is_function_node (FunctionExpression l i ps b) = True"
| "is_function_node (ArrowFunctionExpression l ps b) = True"
| "is_function_node n = False"

text \<open>A measure for the recursions over the tree: a node weighs more than the list of its
  children, a list more than each element and than its tail.\<close>

primrec weight :: "node \<Rightarrow> nat" where
  "weight (Identifier s) = 1"
| "weight (Literal v) = 1"
| "weight (CallExpression l callee args) =
     weight callee + sum_list (map weight args) + length args + 2"
| "weight (MemberExpression l obj prop) = weight obj + weight prop + 3"
| "weight (FunctionDeclaration l i ps b) = sum_list (map weight ps) + length ps + weight b + 2"
| "weight (FunctionExpression l i ps b) = sum_list (map weight ps) + length ps + weight b + 2"
| "weight (ArrowFunctionExpression l ps b) = sum_list (map weight ps) + length ps + weight b + 2"
| "weight (VariableDeclarator i e) =
     weight i + (case map_option weight e of None \<Rightarrow> 0 | Some k \<Rightarrow> k + 1) + 2"
| "weight (Property k v) = weight k + weight v + 3"
| "weight (Other t cs) = sum_list (map weight cs) + length cs + 1"

definition weights :: "node list \<Rightarrow> nat" where
  "weights cs = sum_list (map weight cs) + length cs"

text \<open>\<^verbatim>\<open>n.name\<close>: only an identifier has one (\<open>None\<close> is \<^verbatim>\<open>undefined\<close>).\<close>

fun name_of :: "node \<Rightarrow> string option" where
  "name_of (Identifier s) = Some s"
| "name_of n = None"

text \<open>What a template literal prints for \<^verbatim>\<open>n.name\<close>.\<close>

definition name_str :: "node \<Rightarrow> string" where
  "name_str n = (case name_of n of Some s \<Rightarrow> s | None \<Rightarrow> ''undefined'')"

subsection \<open>Records of the analyzer\<close>

datatype fkind = KFunction | KArrow

record funcInfo =
  name :: string
  ffile :: string
  module :: string
  params :: "string list"
  calls :: "string list"
  fanIn :: nat
  fanOut :: nat
  line :: nat
  kind :: fkind

datatype ctype = TCallExpression | TMemberExpression

text \<open>An entry of \<^verbatim>\<open>fileInfo.calls\<close> and an entry of \<^verbatim>\<open>this.calls\<close>.\<close>

record callRecord =
  cname :: string
  cline :: nat
  ctype :: ctype

record callEdge =
  cfrom :: string
  cto :: string
  eline :: nat

subsection \<open>\<^verbatim>\<open>getCalleeName\<close>\<close>

text \<open>\<open>None\<close> stands for \<^verbatim>\<open>null\<close> and \<^verbatim>\<open>undefined\<close>. The node is a call or a member
  expression at both call sites; on any other node the source returns \<^verbatim>\<open>null\<close>.\<close>

fun getCalleeName :: "node \<Rightarrow> string option" where
  "getCalleeName (CallExpression l (Identifier s) args) = Some s"
| "getCalleeName (CallExpression l (MemberExpression l' obj prop) args) =
     (case obj of
        Identifier o_name \<Rightarrow> Some (o_name @ ''.'' @ name_str prop)
      | _ \<Rightarrow> name_of prop)"
| "getCalleeName (MemberExpression l obj prop) =
     (case obj of
        Identifier o_name \<Rightarrow> Some (o_name @ ''.'' @ name_str prop)
      | _ \<Rightarrow> name_of prop)"
| "getCalleeName n = None"

subsection \<open>\<^verbatim>\<open>extractCalls\<close>\<close>

definition builtins :: "string list" where
  "builtins = [''console'', ''require'', ''setTimeout'', ''setInterval'', ''clearTimeout'',
               ''clearInterval'', ''Math'', ''Array'', ''Set'', ''Map'', ''Object'', ''parseInt'',
               ''parseFloat'', ''isNaN'', ''isFinite'']"

text \<open>The body of \<^verbatim>\<open>if (node.type === 'CallExpression') { ... }\<close>.\<close>

fun recordCall :: "node \<Rightarrow> funcInfo \<Rightarrow> funcInfo" where
  "recordCall (CallExpression l (Identifier funcName) args) fi =
     (if funcName \<notin> set builtins \<and> funcName \<notin> set (calls fi)
      then fi\<lparr>calls := calls fi @ [funcName], fanOut := fanOut fi + 1\<rparr>
      else fi)"
| "recordCall (CallExpression l (MemberExpression l' obj prop) args) fi =
     (case getCalleeName (CallExpression l (MemberExpression l' obj prop) args) of
        Some calleeName \<Rightarrow>
          (if truthy calleeName \<and> calleeName \<notin> set (calls fi)
           then fi\<lparr>calls := calls fi @ [calleeName]\<rparr>
           else fi)
      | None \<Rightarrow> fi)"
| "recordCall n fi = fi"

text \<open>
  \<^verbatim>\<open>extractCalls(node, funcInfo)\<close> mutates \<^verbatim>\<open>funcInfo\<close>; here it returns the updated
  record. \<open>extractChildren\<close> is the loop over the child nodes, which skips a child that is a
  function definition.
\<close>

function (sequential) extractCalls :: "node \<Rightarrow> funcInfo \<Rightarrow> funcInfo"
  and extractChildren :: "node list \<Rightarrow> funcInfo \<Rightarrow> funcInfo" where
  "extractCalls (Identifier s) fi = fi"
| "extractCalls (Literal v) fi = fi"
| "extractCalls (CallExpression l callee args) fi =
     extractChildren (callee # args) (recordCall (CallExpression l callee args) fi)"
| "extractCalls (MemberExpression l obj prop) fi = extractChildren [obj, prop] fi"
| "extractCalls (FunctionDeclaration l i ps b) fi = fi"
| "extractCalls (FunctionExpression l i ps b) fi = fi"
| "extractCalls (ArrowFunctionExpression l ps b) fi = fi"
| "extractCalls (VariableDeclarator i None) fi = extractChildren [i] fi"
| "extractCalls (VariableDeclarator i (Some e)) fi = extractChildren [i, e] fi"
| "extractCalls (Property k v) fi = extractChildren [k, v] fi"
| "extractCalls (Other t cs) fi = extractChildren cs fi"
| "extractChildren [] fi = fi"
| "extractChildren (c # cs) fi =
     extractChildren cs (if is_function_node c then fi else extractCalls c fi)"
  by pat_completeness auto

termination
  by (relation "measure (\<lambda>x. case x of
          Inl (n, fi) \<Rightarrow> weight n
        | Inr (cs, fi) \<Rightarrow> weights cs)") (auto simp: weights_def)

subsection \<open>The analyzer's state\<close>

text \<open>
  A \<^verbatim>\<open>funcInfo\<close> object is shared: the same object sits in \<^verbatim>\<open>fileInfo.functions\<close> and in
  the map \<^verbatim>\<open>this.functions\<close>, it is compared by reference (\<^verbatim>\<open>func1 !== func2\<close>), it is the
  key of \<^verbatim>\<open>fanInMap\<close>, and its \<^verbatim>\<open>fanIn\<close> is assigned later. So the objects live in a
  store, \<open>heap\<close>, and the containers hold references (indices into the store). The maps
  \<^verbatim>\<open>this.modules\<close> and \<^verbatim>\<open>this.functions\<close> are association lists in insertion order.
\<close>

record fileInfo =
  path :: string
  mname :: string
  mfunctions :: "nat list"
  fcalls :: "callRecord list"
  mfanIn :: nat
  mfanOut :: nat
  cohesion :: rat

record analyzer =
  modules :: "(string \<times> fileInfo) list"
  afunctions :: "(string \<times> nat) list"
  acalls :: "callEdge list"
  heap :: "funcInfo list"

definition new_analyzer :: analyzer where
  "new_analyzer = \<lparr>modules = [], afunctions = [], acalls = [], heap = []\<rparr>"

text \<open>\<^verbatim>\<open>map.set(k, v)\<close>: a present key keeps its place.\<close>

fun map_set :: "'k \<Rightarrow> 'v \<Rightarrow> ('k \<times> 'v) list \<Rightarrow> ('k \<times> 'v) list" where
  "map_set k v [] = [(k, v)]"
| "map_set k v ((k', v') # kvs) = (if k' = k then (k, v) # kvs else (k', v') # map_set k v kvs)"

text \<open>The state one run of \<^verbatim>\<open>analyzeAST\<close> works on: its local \<^verbatim>\<open>functionCounter\<close>, the
  \<^verbatim>\<open>fileInfo\<close> under construction, and the analyzer.\<close>

record scan =
  functionCounter :: nat
  info :: fileInfo
  self :: analyzer

subsection \<open>\<^verbatim>\<open>analyzeAST\<close>: naming a function\<close>

definition anonymous :: "nat \<Rightarrow> string" where
  "anonymous c = ''anonymous_'' @ str_of_nat c"

text \<open>\<^verbatim>\<open>x.name || `anonymous_${functionCounter++}`\<close>: the name and the counter after it.\<close>

fun orAnonymous :: "string option \<Rightarrow> nat \<Rightarrow> string \<times> nat" where
  "orAnonymous (Some s) c = (if truthy s then (s, c) else (anonymous c, c + 1))"
| "orAnonymous None c = (anonymous c, c + 1)"

fun isStringLiteral :: "node \<Rightarrow> bool" where
  "isStringLiteral (Literal (LString v)) = True"
| "isStringLiteral n = False"

fun literalValue :: "node \<Rightarrow> string" where
  "literalValue (Literal (LString v)) = v"
| "literalValue n = []"

text \<open>
  The first \<^verbatim>\<open>if\<close> of the loop body, for a \<^verbatim>\<open>parent\<close> whose \<^verbatim>\<open>arguments\<close> hold the
  function node: the name found there, or \<open>None\<close> when the loop goes on.
\<close>

fun callbackName :: "node \<Rightarrow> string option" where
  "callbackName (CallExpression l (MemberExpression l' obj prop) args) =
     (case (name_of prop, name_of obj) of
        (Some methodName, Some objectName) \<Rightarrow>
          (if truthy methodName \<and> truthy objectName then
             (case find isStringLiteral args of
                Some eventArg \<Rightarrow>
                  Some (objectName @ ''.'' @ methodName @ ''_'' @ literalValue eventArg)
              | None \<Rightarrow> Some (objectName @ ''.'' @ methodName @ ''_handler''))
           else None)
      | _ \<Rightarrow> None)"
| "callbackName n = None"

text \<open>
  The loop \<^verbatim>\<open>while (parent && !foundName)\<close> over the chain of \<^verbatim>\<open>parent\<close> references,
  innermost first. The tree shares no node, so \<^verbatim>\<open>parent.arguments.includes(node)\<close> (a
  comparison of references) can hold for the direct parent only: \<open>isArg\<close> says whether the
  function node is an element of the \<^verbatim>\<open>arguments\<close> of the first node of the chain. The
  result is the name and the counter, \<open>None\<close> when the loop ends with \<^verbatim>\<open>foundName\<close> false.
\<close>

fun contextName :: "bool \<Rightarrow> node list \<Rightarrow> nat \<Rightarrow> (string \<times> nat) option" where
  "contextName isArg [] c = None"
| "contextName isArg (parent # chain) c =
     (case (if isArg then callbackName parent else None) of
        Some funcName \<Rightarrow> Some (funcName, c)
      | None \<Rightarrow>
          (case parent of
             VariableDeclarator i e \<Rightarrow> Some (orAnonymous (name_of i) c)
           | Property k v \<Rightarrow> Some (orAnonymous (name_of k) c)
           | _ \<Rightarrow> contextName False chain c))"

definition expressionName :: "bool \<Rightarrow> node list \<Rightarrow> nat \<Rightarrow> string \<times> nat" where
  "expressionName isArg chain c =
     (case contextName isArg chain c of
        Some r \<Rightarrow> r
      | None \<Rightarrow> (anonymous c, c + 1))"

definition declarationName :: "string option \<Rightarrow> nat \<Rightarrow> string \<times> nat" where
  "declarationName i c = (case i of Some n \<Rightarrow> (n, c) | None \<Rightarrow> (anonymous c, c + 1))"

fun declarationParam :: "node \<Rightarrow> string" where
  "declarationParam (Identifier s) = s"
| "declarationParam p = ''unnamed''"

fun expressionParam :: "node \<Rightarrow> string" where
  "expressionParam (Identifier s) = s"
| "expressionParam (Other t cs) =
     (if t = ''ObjectPattern'' then ''object''
      else if t = ''ArrayPattern'' then ''array'' else ''unnamed'')"
| "expressionParam p = ''unnamed''"

subsection \<open>\<^verbatim>\<open>analyzeAST\<close>: recording a function and a file-level call\<close>

definition functionKey :: "string \<Rightarrow> string \<Rightarrow> nat \<Rightarrow> string" where
  "functionKey p funcName l = p @ ''::'' @ funcName @ ''_'' @ str_of_nat l"

text \<open>
  \<^verbatim>\<open>if (funcInfo) { ... }\<close>: the calls of the body are extracted, and the record is kept
  unless the file already has a function of that name and line; a kept record enters
  \<^verbatim>\<open>this.functions\<close> unless its key is taken.
\<close>

definition register :: "string \<Rightarrow> string list \<Rightarrow> nat \<Rightarrow> fkind \<Rightarrow> node \<Rightarrow> scan \<Rightarrow> scan" where
  "register funcName ps l k body s =
     (let fileInfo = info s; this = self s;
          funcInfo = extractCalls body
            \<lparr>name = funcName, ffile = path fileInfo, module = mname fileInfo, params = ps,
             calls = [], fanIn = 0, fanOut = 0, line = l, kind = k\<rparr>
      in case find (\<lambda>f. name (heap this ! f) = funcName \<and> line (heap this ! f) = l)
                (mfunctions fileInfo) of
           Some existingFunc \<Rightarrow> s
         | None \<Rightarrow>
             (let r = length (heap this);
                  key = functionKey (path fileInfo) funcName l
              in s\<lparr>info := fileInfo\<lparr>mfunctions := mfunctions fileInfo @ [r]\<rparr>,
                   self := this\<lparr>heap := heap this @ [funcInfo],
                                afunctions := (if key \<in> fst ` set (afunctions this)
                                               then afunctions this
                                               else afunctions this @ [(key, r)])\<rparr>\<rparr>))"

text \<open>\<^verbatim>\<open>if (!funcInfo && (node.type === 'CallExpression' || node.type === 'MemberExpression'))\<close>,
  for a node of one of the two types.\<close>

definition fileCall :: "node \<Rightarrow> nat \<Rightarrow> ctype \<Rightarrow> scan \<Rightarrow> scan" where
  "fileCall n l t s =
     (case getCalleeName n of
        Some calleeName \<Rightarrow>
          (if truthy calleeName \<and> calleeName \<noteq> ''require'' \<and> calleeName \<noteq> ''console''
           then s\<lparr>info := (info s)\<lparr>fcalls := fcalls (info s) @
                              [\<lparr>cname = calleeName, cline = l, ctype = t\<rparr>]\<rparr>,
                    self := (self s)\<lparr>acalls := acalls (self s) @
                              [\<lparr>cfrom = path (info s), cto = calleeName, eline = l\<rparr>]\<rparr>\<rparr>
           else s)
      | None \<Rightarrow> s)"

subsection \<open>\<^verbatim>\<open>analyzeAST\<close>: the traversal\<close>

text \<open>
  \<open>traverse node isArg chain s\<close>: \<open>chain\<close> is the chain of \<^verbatim>\<open>parent\<close> references of the
  node, innermost first, and \<open>isArg\<close> says whether the node is an element of the
  \<^verbatim>\<open>arguments\<close> of its parent. A function node gets its \<^verbatim>\<open>funcInfo\<close> as \<^verbatim>\<open>parent\<close>
  before its children are visited, and a \<^verbatim>\<open>funcInfo\<close> has no \<^verbatim>\<open>parent\<close> and none of the
  types the loop looks for: the chain of a function's children is the function node alone.
  \<open>traverseChildren\<close> visits the nodes under one key. The import and export descriptors
  the traversal also collects are read by none of the metrics and are left out.
\<close>

function (sequential) traverse :: "node \<Rightarrow> bool \<Rightarrow> node list \<Rightarrow> scan \<Rightarrow> scan"
  and traverseChildren :: "node list \<Rightarrow> bool \<Rightarrow> node list \<Rightarrow> scan \<Rightarrow> scan" where
  "traverse (Identifier x) isArg chain s = s"
| "traverse (Literal v) isArg chain s = s"
| "traverse (FunctionDeclaration l i ps b) isArg chain s =
     (let (funcName, c) = declarationName i (functionCounter s);
          s1 = register funcName (map declarationParam ps) l KFunction b
                 (s\<lparr>functionCounter := c\<rparr>)
      in traverseChildren (ps @ [b]) False [FunctionDeclaration l i ps b] s1)"
| "traverse (FunctionExpression l i ps b) isArg chain s =
     (let (funcName, c) = expressionName isArg chain (functionCounter s);
          s1 = register funcName (map expressionParam ps) l KFunction b
                 (s\<lparr>functionCounter := c\<rparr>)
      in traverseChildren (ps @ [b]) False [FunctionExpression l i ps b] s1)"
| "traverse (ArrowFunctionExpression l ps b) isArg chain s =
     (let (funcName, c) = expressionName isArg chain (functionCounter s);
          s1 = register funcName (map expressionParam ps) l KArrow b
                 (s\<lparr>functionCounter := c\<rparr>)
      in traverseChildren (ps @ [b]) False [ArrowFunctionExpression l ps b] s1)"
| "traverse (CallExpression l callee args) isArg chain s =
     (let node = CallExpression l callee args;
          s1 = fileCall node l TCallExpression s;
          s2 = traverse callee False (node # chain) s1
      in traverseChildren args True (node # chain) s2)"
| "traverse (MemberExpression l obj prop) isArg chain s =
     (let node = MemberExpression l obj prop;
          s1 = fileCall node l TMemberExpression s
      in traverseChildren [obj, prop] False (node # chain) s1)"
| "traverse (VariableDeclarator i None) isArg chain s =
     traverseChildren [i] False (VariableDeclarator i None # chain) s"
| "traverse (VariableDeclarator i (Some e)) isArg chain s =
     traverseChildren [i, e] False (VariableDeclarator i (Some e) # chain) s"
| "traverse (Property k v) isArg chain s =
     traverseChildren [k, v] False (Property k v # chain) s"
| "traverse (Other t cs) isArg chain s = traverseChildren cs False (Other t cs # chain) s"
| "traverseChildren [] isArg chain s = s"
| "traverseChildren (c # cs) isArg chain s =
     traverseChildren cs isArg chain (traverse c isArg chain s)"
  by pat_completeness auto

termination
  by (relation "measure (\<lambda>x. case x of
          Inl (n, isArg, chain, s) \<Rightarrow> weight n
        | Inr (cs, isArg, chain, s) \<Rightarrow> weights cs)") (auto simp: weights_def)

definition analyzeAST :: "node \<Rightarrow> fileInfo \<Rightarrow> analyzer \<Rightarrow> scan" where
  "analyzeAST ast fileInfo this =
     traverse ast False [] \<lparr>functionCounter = 0, info = fileInfo, self = this\<rparr>"

subsection \<open>\<^verbatim>\<open>analyzeFile\<close>\<close>

text \<open>
  Reading the file and parsing it are the host's and the parser's work: \<open>parsed\<close> is the
  tree \<^verbatim>\<open>esprima.parseScript\<close> returns, \<open>None\<close> when \<^verbatim>\<open>readFileSync\<close> or the parser throws,
  and \<open>moduleName\<close> is \<^verbatim>\<open>path.basename(filePath, path.extname(filePath))\<close>. The \<^verbatim>\<open>catch\<close>
  block is empty. \<open>console\<close> is the list of lines written to the console, which
  \<^verbatim>\<open>analyzeFile\<close> receives and returns with the analyzer: no statement of it, of
  \<^verbatim>\<open>analyzeAST\<close>, of \<^verbatim>\<open>extractCalls\<close> or of \<^verbatim>\<open>getCalleeName\<close> writes to it.
\<close>

definition analyzeFile ::
  "string \<Rightarrow> string \<Rightarrow> node option \<Rightarrow> analyzer \<times> string list \<Rightarrow> analyzer \<times> string list" where
  "analyzeFile filePath moduleName parsed st =
     (case st of (this, console) \<Rightarrow>
        (case parsed of
           None \<Rightarrow> (this, console)
         | Some ast \<Rightarrow>
             (let fileInfo = \<lparr>path = filePath, mname = moduleName, mfunctions = [], fcalls = [],
                              mfanIn = 0, mfanOut = 0, cohesion = 0\<rparr>;
                  s = analyzeAST ast fileInfo this
              in ((self s)\<lparr>modules := map_set filePath (info s) (modules (self s))\<rparr>, console))))"

subsection \<open>\<^verbatim>\<open>calculateFanInFanOut\<close>\<close>

text \<open>A loop whose body may throw: the first failure ends it (\<open>None\<close>).\<close>

fun forEach :: "('a \<Rightarrow> 's \<Rightarrow> 's option) \<Rightarrow> 'a list \<Rightarrow> 's \<Rightarrow> 's option" where
  "forEach f [] s = Some s"
| "forEach f (x # xs) s = (case f x s of None \<Rightarrow> None | Some s' \<Rightarrow> forEach f xs s')"

text \<open>\<^verbatim>\<open>this.functions.forEach((func) => { func.fanIn = 0; })\<close>.\<close>

definition resetFanIn :: "(string \<times> nat) list \<Rightarrow> funcInfo list \<Rightarrow> funcInfo list" where
  "resetFanIn fs h = fold (\<lambda>(key, func) h. h[func := (h ! func)\<lparr>fanIn := 0\<rparr>]) fs h"

text \<open>\<^verbatim>\<open>fanInMap\<close>: a set of caller identifiers (a duplicate-free list) for every function
  of \<^verbatim>\<open>this.functions\<close>, no entry for any other reference.\<close>

type_synonym fanInMap = "nat \<Rightarrow> string list option"

definition newFanInMap :: "(string \<times> nat) list \<Rightarrow> fanInMap" where
  "newFanInMap fs = map_of (map (\<lambda>(key, func). (func, [])) fs)"

text \<open>The filter that keeps the first function of every \<^verbatim>\<open>`${func.name}_${func.line}`\<close>.\<close>

definition callerKey :: "funcInfo \<Rightarrow> string" where
  "callerKey func = name func @ ''_'' @ str_of_nat (line func)"

fun uniqueFrom :: "funcInfo list \<Rightarrow> string list \<Rightarrow> nat list \<Rightarrow> nat list" where
  "uniqueFrom h functionKeys [] = []"
| "uniqueFrom h functionKeys (func # fs) =
     (if callerKey (h ! func) \<in> set functionKeys then uniqueFrom h functionKeys fs
      else func # uniqueFrom h (callerKey (h ! func) # functionKeys) fs)"

definition uniqueFunctions :: "funcInfo list \<Rightarrow> nat list \<Rightarrow> nat list" where
  "uniqueFunctions h fs = uniqueFrom h [] fs"

text \<open>
  \<^verbatim>\<open>const callers = fanInMap.get(func); if (!callers.has(k)) { callers.add(k);
  func.fanIn = callers.size; }\<close>. For a function without an entry, \<^verbatim>\<open>callers\<close> is
  \<^verbatim>\<open>undefined\<close> and \<^verbatim>\<open>callers.has\<close> throws.
\<close>

definition addCaller ::
  "nat \<Rightarrow> string \<Rightarrow> fanInMap \<times> funcInfo list \<Rightarrow> (fanInMap \<times> funcInfo list) option" where
  "addCaller func k st =
     (case st of (fanInMap, h) \<Rightarrow>
        (case fanInMap func of
           None \<Rightarrow> None
         | Some callers \<Rightarrow>
             (if k \<in> set callers then Some (fanInMap, h)
              else Some (fanInMap(func \<mapsto> callers @ [k]),
                         h[func := (h ! func)\<lparr>fanIn := length (callers @ [k])\<rparr>]))))"

text \<open>The body of the two nested loops over \<^verbatim>\<open>uniqueFunctions\<close>.\<close>

definition internalCall ::
  "nat \<Rightarrow> nat \<Rightarrow> fanInMap \<times> funcInfo list \<Rightarrow> (fanInMap \<times> funcInfo list) option" where
  "internalCall func1 func2 st =
     (case st of (fanInMap, h) \<Rightarrow>
        (if func1 \<noteq> func2 then
           (let callCount = length (filter (\<lambda>call. call = name (h ! func2)) (calls (h ! func1)))
            in if callCount > 0 then addCaller func2 (callerKey (h ! func1)) (fanInMap, h)
               else Some (fanInMap, h))
         else Some (fanInMap, h)))"

definition internalCalls ::
  "fileInfo \<Rightarrow> fanInMap \<times> funcInfo list \<Rightarrow> (fanInMap \<times> funcInfo list) option" where
  "internalCalls m st =
     (let uniqueFunctions = uniqueFunctions (snd st) (mfunctions m)
      in forEach (\<lambda>func1. forEach (\<lambda>func2. internalCall func1 func2) uniqueFunctions)
           uniqueFunctions st)"

text \<open>The body of the loops over \<^verbatim>\<open>this.calls\<close> and \<^verbatim>\<open>this.functions\<close>.\<close>

definition externalCall ::
  "callEdge \<Rightarrow> nat \<Rightarrow> fanInMap \<times> funcInfo list \<Rightarrow> (fanInMap \<times> funcInfo list) option" where
  "externalCall call func st =
     (case st of (fanInMap, h) \<Rightarrow>
        (if cfrom call \<noteq> ffile (h ! func) \<and> cto call = name (h ! func)
         then addCaller func (cfrom call) (fanInMap, h)
         else Some (fanInMap, h)))"

text \<open>The fan-in of the functions: the three loops. \<open>None\<close> when \<^verbatim>\<open>callers.has\<close> throws.\<close>

definition functionFanIn :: "analyzer \<Rightarrow> (fanInMap \<times> funcInfo list) option" where
  "functionFanIn this =
     (case forEach (\<lambda>(filePath, m). internalCalls m) (modules this)
             (newFanInMap (afunctions this), resetFanIn (afunctions this) (heap this)) of
        None \<Rightarrow> None
      | Some st \<Rightarrow>
          forEach (\<lambda>call. forEach (\<lambda>(key, func). externalCall call func) (afunctions this))
            (acalls this) st)"

text \<open>Module-level fan-out and fan-in.\<close>

definition moduleFanOut :: "funcInfo list \<Rightarrow> fileInfo \<Rightarrow> nat" where
  "moduleFanOut h m =
     (let moduleFunctionNames = set (map (\<lambda>f. name (h ! f)) (mfunctions m));
          externalCalls = filter (\<lambda>c. cname c \<notin> moduleFunctionNames \<and>
                              \<not> (\<exists>part \<in> set (split_dot (cname c)). part \<in> moduleFunctionNames))
                            (fcalls m);
          uniqueExternalCalls = remdups (map (\<lambda>c. let parts = split_dot (cname c)
                                  in if length parts > 1 then hd parts else cname c) externalCalls)
      in length uniqueExternalCalls)"

definition moduleFanIn :: "funcInfo list \<Rightarrow> callEdge list \<Rightarrow> string \<Rightarrow> fileInfo \<Rightarrow> nat" where
  "moduleFanIn h cs filePath m =
     (let fanInCount = length (concat (map (\<lambda>call.
              if cfrom call \<noteq> filePath
              then filter (\<lambda>func. cto call = name (h ! func) \<or>
                              str_includes (cto call) (name (h ! func)) \<or>
                              (str_includes (cto call) ''.'' \<and>
                               split_dot (cto call) ! 1 = name (h ! func)))
                     (mfunctions m)
              else []) cs));
          internalCalls = remdups (concat (map (\<lambda>func1. concat (map (\<lambda>func2.
              if func1 \<noteq> func2 \<and>
                 (\<exists>call \<in> set (calls (h ! func1)).
                     call = name (h ! func2) \<or> str_includes call (name (h ! func2)))
              then [name (h ! func1) @ ''->'' @ name (h ! func2)] else [])
              (mfunctions m))) (mfunctions m)))
      in fanInCount + length internalCalls)"

definition calculateFanInFanOut :: "analyzer \<Rightarrow> analyzer option" where
  "calculateFanInFanOut this =
     (case functionFanIn this of
        None \<Rightarrow> None
      | Some (fanInMap, h) \<Rightarrow>
          Some (this\<lparr>heap := h,
                     modules := map (\<lambda>(filePath, m).
                        (filePath, m\<lparr>mfanOut := moduleFanOut h m,
                                     mfanIn := moduleFanIn h (acalls this) filePath m\<rparr>))
                        (modules this)\<rparr>))"

subsection \<open>\<^verbatim>\<open>calculateCoupling\<close>\<close>

record couplingPair =
  module1 :: string
  module2 :: string
  pcalls :: nat
  ptype :: string

record couplingMetrics =
  tightCoupling :: nat
  looseCoupling :: nat
  couplingPairs :: "couplingPair list"

definition functionalGroups :: "(string \<times> string list) list" where
  "functionalGroups =
     [(''room-management'', [''generateRoomId'', ''create'', ''join'']),
      (''socket-handlers'', [''connection'', ''create-room'', ''join-room'', ''draw'',
                             ''canvas-state'', ''disconnect'']),
      (''canvas-management'', [''canvas-state'', ''canvasState''])]"

text \<open>The pairs \<open>(xs[i], xs[j])\<close> with \<open>i < j\<close>, in the order of the loops
  \<^verbatim>\<open>for (i = 0; ...) for (j = i + 1; ...)\<close>.\<close>

fun pairs :: "'a list \<Rightarrow> ('a \<times> 'a) list" where
  "pairs [] = []"
| "pairs (x # xs) = map (Pair x) xs @ pairs xs"

text \<open>\<^verbatim>\<open>callsBetween\<close> of the single-module branch, for \<^verbatim>\<open>group1\<close> and \<^verbatim>\<open>group2\<close>.\<close>

definition groupCalls :: "funcInfo list \<Rightarrow> fileInfo \<Rightarrow> string list \<Rightarrow> string list \<Rightarrow> nat" where
  "groupCalls h m group1 group2 =
     sum_list (map (\<lambda>func.
        if \<exists>g \<in> set group1. str_includes (name (h ! func)) g
        then length (filter (\<lambda>call. \<exists>g \<in> set group2. str_includes call g) (calls (h ! func)))
        else 0) (mfunctions m))"

text \<open>\<^verbatim>\<open>if (callsBetween > 0) { couplingPairs.push(...); ... }\<close>.\<close>

definition addPair :: "string \<Rightarrow> string \<Rightarrow> nat \<Rightarrow> couplingMetrics \<Rightarrow> couplingMetrics" where
  "addPair n1 n2 callsBetween cm =
     (if callsBetween > 0 then
        (let cm1 = cm\<lparr>couplingPairs := couplingPairs cm @
                     [\<lparr>module1 = n1, module2 = n2, pcalls = callsBetween,
                       ptype = (if callsBetween > 5 then ''tight'' else ''loose'')\<rparr>]\<rparr>
         in if callsBetween > 5 then cm1\<lparr>tightCoupling := tightCoupling cm1 + 1\<rparr>
            else cm1\<lparr>looseCoupling := looseCoupling cm1 + 1\<rparr>)
      else cm)"

text \<open>\<^verbatim>\<open>path1 < path2\<close> on strings: by code units, a proper prefix first.\<close>

fun str_less :: "string \<Rightarrow> string \<Rightarrow> bool" where
  "str_less s [] = False"
| "str_less [] (c # t) = True"
| "str_less (d # s) (c # t) =
     ((of_char d :: nat) < of_char c \<or> (d = c \<and> str_less s t))"

definition moduleCalls :: "callEdge list \<Rightarrow> string \<times> fileInfo \<Rightarrow> string \<times> fileInfo \<Rightarrow> nat" where
  "moduleCalls cs pm1 pm2 =
     length (filter (\<lambda>c.
        (cfrom c = fst pm1 \<and> str_includes (cto c) (mname (snd pm2))) \<or>
        (cfrom c = fst pm2 \<and> str_includes (cto c) (mname (snd pm1)))) cs)"

definition calculateCoupling :: "analyzer \<Rightarrow> couplingMetrics" where
  "calculateCoupling this =
     (let couplingMetrics = \<lparr>tightCoupling = 0, looseCoupling = 0, couplingPairs = []\<rparr>
      in if length (modules this) = 1 then
           (let m = snd (hd (modules this))
            in fold (\<lambda>(g1, g2). addPair (fst g1) (fst g2)
                        (groupCalls (heap this) m (snd g1) (snd g2)))
                 (pairs functionalGroups) couplingMetrics)
         else
           fold (\<lambda>pm1. fold (\<lambda>pm2 cm.
                   if str_less (fst pm1) (fst pm2)
                   then addPair (mname (snd pm1)) (mname (snd pm2))
                          (moduleCalls (acalls this) pm1 pm2) cm
                   else cm) (modules this))
             (modules this) couplingMetrics)"

subsection \<open>\<^verbatim>\<open>calculateCohesion\<close>\<close>

text \<open>
  The quotient \<^verbatim>\<open>sharedReferences / totalPossiblePairs\<close> is a rational here. The source
  divides doubles; for counts below \<open>2 ^ 49\<close> the comparisons with \<^verbatim>\<open>0.7\<close> and \<^verbatim>\<open>0.3\<close>
  come out the same, and the quotients 0 and 1 are exact.
\<close>

record cohesionEntry =
  cmodule :: string
  ccohesion :: rat
  reason :: "string option"
  sharedReferences :: "nat option"
  totalPairs :: "nat option"
  crating :: "string option"

text \<open>\<^verbatim>\<open>deps\<close> of a function: the base of every outgoing call.\<close>

definition deps :: "funcInfo \<Rightarrow> string list" where
  "deps func = map (\<lambda>call. if str_includes call ''.'' then hd (split_dot call) else call)
                 (calls func)"

text \<open>\<^verbatim>\<open>typeof p === 'string'\<close>: every entry of \<^verbatim>\<open>params\<close> is a string (an identifier's
  name or one of the placeholders).\<close>

definition typeof_string :: "string \<Rightarrow> bool" where
  "typeof_string p = True"

definition callsEachOther :: "funcInfo \<Rightarrow> funcInfo \<Rightarrow> bool" where
  "callsEachOther func1 func2 =
     ((\<exists>c \<in> set (calls func1). c = name func2 \<or> str_includes c (name func2)) \<or>
      (\<exists>c \<in> set (calls func2). c = name func1 \<or> str_includes c (name func1)))"

definition sharedParams :: "funcInfo \<Rightarrow> funcInfo \<Rightarrow> bool" where
  "sharedParams func1 func2 =
     ((\<exists>p \<in> set (params func1). p \<in> set (params func2)) \<or>
      (\<exists>p \<in> set (params func1). \<exists>p2 \<in> set (params func2).
          p = p2 \<or> (typeof_string p \<and> typeof_string p2)))"

definition sharedDeps :: "funcInfo \<Rightarrow> funcInfo \<Rightarrow> bool" where
  "sharedDeps func1 func2 = (\<exists>dep \<in> set (deps func1). dep \<in> set (deps func2))"

definition similarData :: "funcInfo \<Rightarrow> funcInfo \<Rightarrow> bool" where
  "similarData func1 func2 =
     (str_includes (name func1) ''room'' \<and> str_includes (name func2) ''room'' \<or>
      str_includes (name func1) ''canvas'' \<and> str_includes (name func2) ''canvas'' \<or>
      str_includes (name func1) ''user'' \<and> str_includes (name func2) ''user'')"

definition cohesive :: "funcInfo \<Rightarrow> funcInfo \<Rightarrow> bool" where
  "cohesive func1 func2 =
     (callsEachOther func1 func2 \<or> sharedParams func1 func2 \<or> sharedDeps func1 func2 \<or>
      similarData func1 func2)"

definition cohesionRating :: "rat \<Rightarrow> string" where
  "cohesionRating c = (if c > 7 / 10 then ''High'' else if c > 3 / 10 then ''Medium'' else ''Low'')"

text \<open>One module: the entry pushed to \<^verbatim>\<open>cohesionMetrics\<close> and the module after it.\<close>

definition moduleCohesion :: "funcInfo list \<Rightarrow> fileInfo \<Rightarrow> cohesionEntry \<times> fileInfo" where
  "moduleCohesion h m =
     (if length (mfunctions m) = 0 then
        (\<lparr>cmodule = mname m, ccohesion = 1, reason = Some ''No functions to measure'',
          sharedReferences = None, totalPairs = None, crating = None\<rparr>, m)
      else if length (mfunctions m) = 1 then
        (\<lparr>cmodule = mname m, ccohesion = 1, reason = Some ''Single function module'',
          sharedReferences = None, totalPairs = None, crating = None\<rparr>, m\<lparr>cohesion := 1\<rparr>)
      else
        (let ps = pairs (mfunctions m);
             totalPossiblePairs = length ps;
             shared = length (filter (\<lambda>(func1, func2). cohesive (h ! func1) (h ! func2)) ps);
             c = (if totalPossiblePairs > 0 then of_nat shared / of_nat totalPossiblePairs else 1)
         in (\<lparr>cmodule = mname m, ccohesion = c, reason = None,
              sharedReferences = Some shared, totalPairs = Some totalPossiblePairs,
              crating = Some (cohesionRating c)\<rparr>, m\<lparr>cohesion := c\<rparr>)))"

definition calculateCohesion :: "analyzer \<Rightarrow> cohesionEntry list \<times> analyzer" where
  "calculateCohesion this =
     (let r = map (\<lambda>(filePath, m). (filePath, moduleCohesion (heap this) m)) (modules this)
      in (map (\<lambda>(filePath, e, m). e) r,
          this\<lparr>modules := map (\<lambda>(filePath, e, m). (filePath, m)) r\<rparr>))"

subsection \<open>\<^verbatim>\<open>calculateInformationFlowComplexity\<close>\<close>

text \<open>Fan-in and fan-out are counts, far below \<open>2 ^ 26\<close>, where \<^verbatim>\<open>Math.pow\<close> on doubles is
  exact: the numbers are modelled as naturals.\<close>

record ifcEntry =
  ifc_function :: string
  ifc_module :: string
  ifc_fanIn :: nat
  ifc_fanOut :: nat
  informationFlowComplexity :: nat
  rating :: string

definition ifc_of :: "funcInfo \<Rightarrow> nat" where
  "ifc_of func = (if fanIn func > 0 \<and> fanOut func > 0 then (fanIn func * fanOut func) ^ 2 else 0)"

definition rating_of :: "funcInfo \<Rightarrow> string" where
  "rating_of func =
     (let ifc = ifc_of func in
      if ifc > 100 then ''Very High''
      else if ifc > 25 then ''High''
      else if ifc > 5 then ''Medium''
      else if fanIn func = 0 \<and> fanOut func = 0 then ''None''
      else if fanIn func = 0 \<or> fanOut func = 0 then ''Low''
      else ''Low'')"

definition ifcEntry_of :: "funcInfo \<Rightarrow> ifcEntry" where
  "ifcEntry_of func =
     \<lparr>ifc_function = name func, ifc_module = module func, ifc_fanIn = fanIn func,
      ifc_fanOut = fanOut func, informationFlowComplexity = ifc_of func,
      rating = rating_of func\<rparr>"

definition calculateInformationFlowComplexity :: "analyzer \<Rightarrow> ifcEntry list" where
  "calculateInformationFlowComplexity this =
     map (\<lambda>(key, func). ifcEntry_of (heap this ! func)) (afunctions this)"

subsection \<open>Scenarios\<close>

text \<open>
  The tree of a file that holds \<^verbatim>\<open>function generateRoomId(){ return helper(); }\<close> and
  \<^verbatim>\<open>function helper(){ return 1; }\<close> and nothing else; \<open>l1\<close>, \<open>l2\<close> and \<open>l3\<close> are the
  lines of the first function, of the call and of the second function. \<open>scenario\<close> is the
  analyzer after \<^verbatim>\<open>analyzeFile\<close> of that one file.
\<close>

definition scenarioTree :: "nat \<Rightarrow> nat \<Rightarrow> nat \<Rightarrow> node" where
  "scenarioTree l1 l2 l3 =
     Other ''Program''
       [FunctionDeclaration l1 (Some ''generateRoomId'') []
          (Other ''BlockStatement''
             [Other ''ReturnStatement'' [CallExpression l2 (Identifier ''helper'') []]]),
        FunctionDeclaration l3 (Some ''helper'') []
          (Other ''BlockStatement'' [Other ''ReturnStatement'' [Literal LOther]])]"

definition scenario :: "string \<Rightarrow> string \<Rightarrow> nat \<Rightarrow> nat \<Rightarrow> nat \<Rightarrow> analyzer" where
  "scenario p mn l1 l2 l3 =
     fst (analyzeFile p mn (Some (scenarioTree l1 l2 l3)) (new_analyzer, []))"

text \<open>An analyzer with six functions, one for every band of the rating.\<close>

definition ratedFunction :: "string \<Rightarrow> nat \<Rightarrow> nat \<Rightarrow> funcInfo" where
  "ratedFunction n i out =
     \<lparr>name = n, ffile = ''a.js'', module = ''a'', params = [], calls = [], fanIn = i,
      fanOut = out, line = 1, kind = KFunction\<rparr>"

definition ratedAnalyzer :: analyzer where
  "ratedAnalyzer =
     \<lparr>modules = [],
      afunctions = [(''a'', 0), (''b'', 1), (''c'', 2), (''d'', 3), (''e'', 4), (''f'', 5)],
      acalls = [],
      heap = [ratedFunction ''a'' 0 0, ratedFunction ''b'' 0 3, ratedFunction ''c'' 3 4,
              ratedFunction ''d'' 2 3, ratedFunction ''e'' 1 3, ratedFunction ''f'' 1 2]\<rparr>"


text \<open>
  The loop of the main program over the files found,
  \<^verbatim>\<open>allFiles.forEach(file => { ...; analyzer.analyzeFile(file); })\<close>, each file with its module
  name and the outcome of reading and parsing it. (The line the loop prints for every file
  before it analyzes it is the same whatever the outcome, and is left out.)
\<close>

definition analyzeFiles ::
  "(string \<times> string \<times> node option) list \<Rightarrow> analyzer \<times> string list \<Rightarrow> analyzer \<times> string list" where
  "analyzeFiles files st =
     fold (\<lambda>(filePath, moduleName, parsed). analyzeFile filePath moduleName parsed) files st"

subsection \<open>The nodes of a tree\<close>

text \<open>Every node of a tree, in the order in which \<^verbatim>\<open>traverse\<close> visits them.\<close>

function (sequential) subnodes :: "node \<Rightarrow> node list"
  and subnodesList :: "node list \<Rightarrow> node list" where
  "subnodes (CallExpression l callee args) =
     CallExpression l callee args # subnodes callee @ subnodesList args"
| "subnodes (MemberExpression l obj prop) =
     MemberExpression l obj prop # subnodesList [obj, prop]"
| "subnodes (FunctionDeclaration l i ps b) =
     FunctionDeclaration l i ps b # subnodesList (ps @ [b])"
| "subnodes (FunctionExpression l i ps b) =
     FunctionExpression l i ps b # subnodesList (ps @ [b])"
| "subnodes (ArrowFunctionExpression l ps b) =
     ArrowFunctionExpression l ps b # subnodesList (ps @ [b])"
| "subnodes (VariableDeclarator i None) = VariableDeclarator i None # subnodesList [i]"
| "subnodes (VariableDeclarator i (Some e)) =
     VariableDeclarator i (Some e) # subnodesList [i, e]"
| "subnodes (Property k v) = Property k v # subnodesList [k, v]"
| "subnodes (Other t cs) = Other t cs # subnodesList cs"
| "subnodes n = [n]"
| "subnodesList [] = []"
| "subnodesList (c # cs) = subnodes c @ subnodesList cs"
  by pat_completeness auto

termination
  by (relation "measure (\<lambda>x. case x of Inl n \<Rightarrow> weight n | Inr cs \<Rightarrow> weights cs)")
     (auto simp: weights_def)

text \<open>
  The file-level record of one node: a call or member expression whose derived name is a
  non-empty string other than \<^verbatim>\<open>require\<close> and \<^verbatim>\<open>console\<close> has one, any other node none.
\<close>

definition callRecordFor :: "node \<Rightarrow> nat \<Rightarrow> ctype \<Rightarrow> callRecord list" where
  "callRecordFor n l t =
     (case getCalleeName n of
        Some calleeName \<Rightarrow>
          (if truthy calleeName \<and> calleeName \<noteq> ''require'' \<and> calleeName \<noteq> ''console''
           then [\<lparr>cname = calleeName, cline = l, ctype = t\<rparr>] else [])
      | None \<Rightarrow> [])"

fun callRecordOf :: "node \<Rightarrow> callRecord list" where
  "callRecordOf (CallExpression l callee args) =
     callRecordFor (CallExpression l callee args) l TCallExpression"
| "callRecordOf (MemberExpression l obj prop) =
     callRecordFor (MemberExpression l obj prop) l TMemberExpression"
| "callRecordOf n = []"

text \<open>A call through a member access, and the names derived for such calls.\<close>

fun isMemberCall :: "node \<Rightarrow> bool" where
  "isMemberCall (CallExpression l (MemberExpression l' obj prop) args) = True"
| "isMemberCall n = False"

definition memberCallNames :: "node list \<Rightarrow> string set" where
  "memberCallNames ns = {x. \<exists>m \<in> set ns. isMemberCall m \<and> getCalleeName m = Some x}"

subsection \<open>More scenarios\<close>

text \<open>Three functions \<^verbatim>\<open>alpha(a)\<close>, \<^verbatim>\<open>beta(b)\<close>, \<^verbatim>\<open>gamma(c)\<close> with empty bodies.\<close>

definition unrelatedTree :: node where
  "unrelatedTree =
     Other ''Program''
       [FunctionDeclaration 1 (Some ''alpha'') [Identifier ''a''] (Other ''BlockStatement'' []),
        FunctionDeclaration 2 (Some ''beta'') [Identifier ''b''] (Other ''BlockStatement'' []),
        FunctionDeclaration 3 (Some ''gamma'') [Identifier ''c''] (Other ''BlockStatement'' [])]"

text \<open>\<^verbatim>\<open>socket.on('draw', function(){ generateRoomId(); })\<close>, and
  \<^verbatim>\<open>function generateRoomId(){ draw(); }\<close>.\<close>

definition handlerTree :: node where
  "handlerTree =
     Other ''Program''
       [Other ''ExpressionStatement''
          [CallExpression 1 (MemberExpression 1 (Identifier ''socket'') (Identifier ''on''))
             [Literal (LString ''draw''),
              FunctionExpression 1 None []
                (Other ''BlockStatement''
                   [Other ''ExpressionStatement''
                      [CallExpression 2 (Identifier ''generateRoomId'') []]])]]]"

definition managerTree :: node where
  "managerTree =
     Other ''Program''
       [FunctionDeclaration 1 (Some ''generateRoomId'') []
          (Other ''BlockStatement''
             [Other ''ExpressionStatement'' [CallExpression 2 (Identifier ''draw'') []]])]"

text \<open>\<^verbatim>\<open>function later(){ setTimeout(tick); this.setInterval(tick); }\<close>.\<close>

definition timerBody :: node where
  "timerBody =
     Other ''BlockStatement''
       [Other ''ExpressionStatement''
          [CallExpression 2 (Identifier ''setTimeout'') [Identifier ''tick'']],
        Other ''ExpressionStatement''
          [CallExpression 3
             (MemberExpression 3 (Other ''ThisExpression'' []) (Identifier ''setInterval''))
             [Identifier ''tick'']]]"

definition timerTree :: node where
  "timerTree = Other ''Program'' [FunctionDeclaration 1 (Some ''later'') [] timerBody]"

definition emptyRecord :: funcInfo where
  "emptyRecord =
     \<lparr>name = ''later'', ffile = ''client/timer.js'', module = ''timer'', params = [],
      calls = [], fanIn = 0, fanOut = 0, line = 1, kind = KFunction\<rparr>"

definition emptyScan :: scan where
  "emptyScan =
     \<lparr>functionCounter = 0,
      info = \<lparr>path = ''client/timer.js'', mname = ''timer'', mfunctions = [], fcalls = [],
              mfanIn = 0, mfanOut = 0, cohesion = 0\<rparr>,
      self = new_analyzer\<rparr>"

text \<open>\<^verbatim>\<open>(function(){})()\<close>.\<close>

definition iifeTree :: node where
  "iifeTree =
     Other ''Program''
       [Other ''ExpressionStatement''
          [CallExpression 1 (FunctionExpression 1 None [] (Other ''BlockStatement'' [])) []]]"

subsection \<open>The body of a function without its nested functions\<close>

text \<open>\<open>hollow\<close> empties every function definition met on the way down: its parameters and its
  body go, the node stays.\<close>

primrec hollow :: "node \<Rightarrow> node" where
  "hollow (Identifier s) = Identifier s"
| "hollow (Literal v) = Literal v"
| "hollow (CallExpression l callee args) = CallExpression l (hollow callee) (map hollow args)"
| "hollow (MemberExpression l obj prop) = MemberExpression l (hollow obj) (hollow prop)"
| "hollow (FunctionDeclaration l i ps b) = FunctionDeclaration l i [] (Other ''BlockStatement'' [])"
| "hollow (FunctionExpression l i ps b) = FunctionExpression l i [] (Other ''BlockStatement'' [])"
| "hollow (ArrowFunctionExpression l ps b) = ArrowFunctionExpression l [] (Other ''BlockStatement'' [])"
| "hollow (VariableDeclarator i e) = VariableDeclarator (hollow i) (map_option hollow e)"
| "hollow (Property k v) = Property (hollow k) (hollow v)"
| "hollow (Other t cs) = Other t (map hollow cs)"








subsection \<open>Callers\<close>

text \<open>
  The callers the aggregation can count for a function \<open>func\<close>: the functions of a module that
  holds \<open>func\<close>, other than \<open>func\<close>, whose outgoing call list holds its name, and the other
  files that hold a call edge to its name. \<open>callerIds\<close> are the identifiers
  \<^verbatim>\<open>calculateFanInFanOut\<close> puts into the set of \<open>func\<close> for them.
\<close>

definition intraCallers :: "analyzer \<Rightarrow> nat \<Rightarrow> nat set" where
  "intraCallers this func =
     {func1. \<exists>(filePath, m) \<in> set (modules this).
        func \<in> set (mfunctions m) \<and> func1 \<in> set (mfunctions m) \<and> func1 \<noteq> func \<and>
        name (heap this ! func) \<in> set (calls (heap this ! func1))}"

definition callerFiles :: "analyzer \<Rightarrow> nat \<Rightarrow> string set" where
  "callerFiles this func =
     {cfrom call | call. call \<in> set (acalls this) \<and>
        cfrom call \<noteq> ffile (heap this ! func) \<and> cto call = name (heap this ! func)}"

definition callerIds :: "analyzer \<Rightarrow> nat \<Rightarrow> string set" where
  "callerIds this func =
     (\<lambda>f. callerKey (heap this ! f)) ` intraCallers this func \<union> callerFiles this func"

text \<open>What the loops of \<^verbatim>\<open>calculateFanInFanOut\<close> keep true of \<^verbatim>\<open>fanInMap\<close> and the store:
  only \<^verbatim>\<open>fanIn\<close> changes, every function of \<^verbatim>\<open>this.functions\<close> has its set, and a set holds
  caller identifiers of its function only, each once, as many as the function's \<^verbatim>\<open>fanIn\<close>.\<close>

definition fanInInv :: "analyzer \<Rightarrow> fanInMap \<times> funcInfo list \<Rightarrow> bool" where
  "fanInInv this st =
     (case st of (fm, h) \<Rightarrow>
        length h = length (heap this) \<and>
        (\<forall>i. name (h ! i) = name (heap this ! i) \<and> calls (h ! i) = calls (heap this ! i) \<and>
             ffile (h ! i) = ffile (heap this ! i) \<and> line (h ! i) = line (heap this ! i)) \<and>
        (\<forall>a \<in> snd ` set (afunctions this). fm a \<noteq> None) \<and>
        (\<forall>a ks. fm a = Some ks \<longrightarrow>
           distinct ks \<and> set ks \<subseteq> callerIds this a \<and>
           (a < length h \<longrightarrow> fanIn (h ! a) = length ks)))"

text \<open>Every function of a module is a function of \<^verbatim>\<open>this.functions\<close>: then every
  \<^verbatim>\<open>fanInMap.get\<close> finds a set.\<close>

definition registered :: "analyzer \<Rightarrow> bool" where
  "registered this =
     (\<forall>(filePath, m) \<in> set (modules this). set (mfunctions m) \<subseteq> snd ` set (afunctions this))"

text \<open>The functions of the whole project whose outgoing call list holds the name of \<open>func\<close>.\<close>

definition callingFunctions :: "analyzer \<Rightarrow> nat \<Rightarrow> nat list" where
  "callingFunctions this func =
     filter (\<lambda>f. name (heap this ! func) \<in> set (calls (heap this ! f)))
       [0 ..< length (heap this)]"

text \<open>
  A project of two files: \<^verbatim>\<open>function helper(){}\<close> in one, the statements \<^verbatim>\<open>helper();
  helper();\<close> at the top level of the other. And one where the first file also holds
  \<^verbatim>\<open>function user(){ helper(); helper(); }\<close>.
\<close>

definition helperDeclaration :: node where
  "helperDeclaration = FunctionDeclaration 1 (Some ''helper'') [] (Other ''BlockStatement'' [])"

definition userDeclaration :: node where
  "userDeclaration =
     FunctionDeclaration 2 (Some ''user'') []
       (Other ''BlockStatement''
          [Other ''ExpressionStatement'' [CallExpression 3 (Identifier ''helper'') []],
           Other ''ExpressionStatement'' [CallExpression 4 (Identifier ''helper'') []]])"

definition topLevelTree :: node where
  "topLevelTree =
     Other ''Program''
       [Other ''ExpressionStatement'' [CallExpression 1 (Identifier ''helper'') []],
        Other ''ExpressionStatement'' [CallExpression 2 (Identifier ''helper'') []]]"

definition topLevelProject :: analyzer where
  "topLevelProject =
     fst (analyzeFiles
       [(''lib/a.js'', ''a'', Some (Other ''Program'' [helperDeclaration])),
        (''lib/b.js'', ''b'', Some topLevelTree)] (new_analyzer, []))"

definition twoCallerProject :: analyzer where
  "twoCallerProject =
     fst (analyzeFiles
       [(''lib/a.js'', ''a'', Some (Other ''Program'' [helperDeclaration, userDeclaration])),
        (''lib/b.js'', ''b'', Some topLevelTree)] (new_analyzer, []))"

subsection \<open>The function definitions of a file\<close>





text \<open>The part of the state the recording of functions reads and writes.\<close>

definition funs :: "scan \<Rightarrow> string \<times> string \<times> nat list \<times> funcInfo list \<times> (string \<times> nat) list" where
  "funs s = (path (info s), mname (info s), mfunctions (info s), heap (self s), afunctions (self s))"











section \<open>Properties\<close>

subsection \<open>The end-to-end scenario\<close>

lemma scenario_eq:
  "scenario p mn l1 l2 l3 =
     \<lparr>modules =
        [(p, \<lparr>path = p, mname = mn, mfunctions = [0, 1],
              fcalls = [\<lparr>cname = ''helper'', cline = l2, ctype = TCallExpression\<rparr>],
              mfanIn = 0, mfanOut = 0, cohesion = 0\<rparr>)],
      afunctions = [(functionKey p ''generateRoomId'' l1, 0), (functionKey p ''helper'' l3, 1)],
      acalls = [\<lparr>cfrom = p, cto = ''helper'', eline = l2\<rparr>],
      heap =
        [\<lparr>name = ''generateRoomId'', ffile = p, module = mn, params = [],
          calls = [''helper''], fanIn = 0, fanOut = 1, line = l1, kind = KFunction\<rparr>,
         \<lparr>name = ''helper'', ffile = p, module = mn, params = [], calls = [],
          fanIn = 0, fanOut = 0, line = l3, kind = KFunction\<rparr>]\<rparr>"
  by (simp add: scenario_def analyzeFile_def analyzeAST_def scenarioTree_def new_analyzer_def
      declarationName_def register_def fileCall_def builtins_def truthy_def functionKey_def
      Let_def)

text \<open>
  Claim C1. For a project of one analyzed file that defines exactly
  \<^verbatim>\<open>function generateRoomId(){ return helper(); }\<close> and \<^verbatim>\<open>function helper(){ return 1; }\<close>,
  whatever its path, module name and line numbers: \<^verbatim>\<open>calculateFanInFanOut\<close> returns, and
  after it \<^verbatim>\<open>generateRoomId\<close> has fan-in 0 and fan-out 1, \<^verbatim>\<open>helper\<close> has fan-in 1 and
  fan-out 0, these two are the functions of the project, and \<^verbatim>\<open>calculateCohesion\<close> reports
  cohesion 1 for the module and stores it there.
\<close>

theorem end_to_end_scenario:
  "(case calculateFanInFanOut (scenario p mn l1 l2 l3) of
      None \<Rightarrow> False
    | Some this \<Rightarrow>
        map (\<lambda>f. (name f, fanIn f, fanOut f)) (heap this) =
          [(''generateRoomId'', 0, 1), (''helper'', 1, 0)] \<and>
        map (\<lambda>(key, f). name (heap this ! f)) (afunctions this) =
          [''generateRoomId'', ''helper''] \<and>
        map ccohesion (fst (calculateCohesion this)) = [1] \<and>
        map (\<lambda>(filePath, m). cohesion m) (modules (snd (calculateCohesion this))) = [1])"
  by (simp add: scenario_eq calculateFanInFanOut_def functionFanIn_def newFanInMap_def
       resetFanIn_def internalCalls_def uniqueFunctions_def callerKey_def internalCall_def
       addCaller_def externalCall_def calculateCohesion_def moduleCohesion_def cohesive_def
       callsEachOther_def Let_def split: option.splits)

theorem end_to_end_scenario_witness:
  "(case calculateFanInFanOut (scenario ''server/server.js'' ''server'' 1 1 2) of
      None \<Rightarrow> False
    | Some this \<Rightarrow>
        map (\<lambda>f. (name f, fanIn f, fanOut f)) (heap this) =
          [(''generateRoomId'', 0, 1), (''helper'', 1, 0)] \<and>
        map (\<lambda>(key, f). name (heap this ! f)) (afunctions this) =
          [''generateRoomId'', ''helper''] \<and>
        map ccohesion (fst (calculateCohesion this)) = [1] \<and>
        map (\<lambda>(filePath, m). cohesion m) (modules (snd (calculateCohesion this))) = [1])"
  by (rule end_to_end_scenario)

subsection \<open>Information-flow complexity\<close>

text \<open>
  Claim C6. For the \<open>i\<close>-th function \<open>F\<close> of \<^verbatim>\<open>this.functions\<close>, the \<open>i\<close>-th entry of
  \<^verbatim>\<open>calculateInformationFlowComplexity\<close> reports \<open>F\<close>'s name, fan-in and fan-out; its
  complexity is \<open>(fanIn * fanOut)\<^sup>2\<close> when both are positive and 0 otherwise; its rating
  is "None" when both are zero, "Low" when exactly one is zero, "Very High" above 100,
  "High" above 25 up to 100, "Medium" above 5 up to 25, and "Low" in the remaining case.
\<close>

theorem ifc_formula_and_rating:
  assumes "i < length (afunctions this)"
  shows "let F = heap this ! snd (afunctions this ! i);
             e = calculateInformationFlowComplexity this ! i;
             IFC = informationFlowComplexity e
         in ifc_function e = name F \<and> ifc_fanIn e = fanIn F \<and> ifc_fanOut e = fanOut F \<and>
            (fanIn F > 0 \<and> fanOut F > 0 \<longrightarrow> IFC = (fanIn F * fanOut F) ^ 2) \<and>
            (fanIn F = 0 \<or> fanOut F = 0 \<longrightarrow> IFC = 0) \<and>
            (fanIn F = 0 \<and> fanOut F = 0 \<longrightarrow> rating e = ''None'') \<and>
            ((fanIn F = 0) \<noteq> (fanOut F = 0) \<longrightarrow> rating e = ''Low'') \<and>
            (IFC > 100 \<longrightarrow> rating e = ''Very High'') \<and>
            (25 < IFC \<and> IFC \<le> 100 \<longrightarrow> rating e = ''High'') \<and>
            (5 < IFC \<and> IFC \<le> 25 \<longrightarrow> rating e = ''Medium'') \<and>
            (fanIn F > 0 \<and> fanOut F > 0 \<and> IFC \<le> 5 \<longrightarrow> rating e = ''Low'')"
  using assms
  by (auto simp: calculateInformationFlowComplexity_def ifcEntry_of_def ifc_of_def rating_of_def
        Let_def split_beta)

theorem ifc_formula_and_rating_witness:
  "length (afunctions ratedAnalyzer) = 6 \<and>
   map (\<lambda>e. (ifc_fanIn e, ifc_fanOut e, informationFlowComplexity e, rating e))
     (calculateInformationFlowComplexity ratedAnalyzer) =
     [(0, 0, 0, ''None''), (0, 3, 0, ''Low''), (3, 4, 144, ''Very High''),
      (2, 3, 36, ''High''), (1, 3, 9, ''Medium''), (1, 2, 4, ''Low'')]"
  using ifc_formula_and_rating [of 0 ratedAnalyzer] ifc_formula_and_rating [of 1 ratedAnalyzer]
    ifc_formula_and_rating [of 2 ratedAnalyzer] ifc_formula_and_rating [of 3 ratedAnalyzer]
    ifc_formula_and_rating [of 4 ratedAnalyzer] ifc_formula_and_rating [of 5 ratedAnalyzer]
  by (simp add: ratedAnalyzer_def ratedFunction_def calculateInformationFlowComplexity_def
        ifcEntry_of_def ifc_of_def rating_of_def Let_def)

subsection \<open>Naming a callback\<close>




subsection \<open>A file that cannot be parsed\<close>

text \<open>
  Claim C9, as stated: when parsing a file fails, the file is excluded, a warning is emitted
  and the analysis goes on. The \<^verbatim>\<open>catch\<close> block of \<^verbatim>\<open>analyzeFile\<close> is empty: after a file
  that cannot be parsed the console holds no line, so no warning was emitted.
\<close>

theorem parse_failure_counterexample:
  "snd (analyzeFile ''client/app/page.jsx'' ''page'' None (new_analyzer, [])) = []"
  by (simp add: analyzeFile_def)

text \<open>
  Claim C9, amended. When reading or parsing a file fails, \<^verbatim>\<open>analyzeFile\<close> returns normally
  and leaves the analyzer and the console as they were: the file enters no table, nothing is
  written, and the run over the files gives what it gives without that file.
\<close>

theorem parse_failure_skips_silently:
  "analyzeFile p mn None st = st \<and>
   analyzeFiles (before @ (p, mn, None) # after) st = analyzeFiles (before @ after) st"
proof -
  have "analyzeFile p mn None st = st" for st
    by (simp add: analyzeFile_def split: prod.splits)
  then show ?thesis
    by (simp add: analyzeFiles_def)
qed

theorem parse_failure_skips_silently_witness:
  "analyzeFile ''client/app/page.jsx'' ''page'' None
     (scenario ''server/server.js'' ''server'' 1 1 2, []) =
     (scenario ''server/server.js'' ''server'' 1 1 2, []) \<and>
   analyzeFiles [(''client/app/page.jsx'', ''page'', None),
                 (''server/server.js'', ''server'', Some (scenarioTree 1 1 2))]
     (new_analyzer, []) =
     (scenario ''server/server.js'' ''server'' 1 1 2, [])"
  using parse_failure_skips_silently [of "''client/app/page.jsx''" "''page''"
      "(scenario ''server/server.js'' ''server'' 1 1 2, [])" "[]" "[]"]
    parse_failure_skips_silently [of "''client/app/page.jsx''" "''page''" "(new_analyzer, [])" "[]"
      "[(''server/server.js'', ''server'', Some (scenarioTree 1 1 2))]"]
  by (simp add: analyzeFiles_def scenario_def analyzeFile_def Let_def)

subsection \<open>Cohesion of unrelated functions\<close>

text \<open>
  Claim C5, on the code. The three functions \<^verbatim>\<open>alpha(a)\<close>, \<^verbatim>\<open>beta(b)\<close>, \<^verbatim>\<open>gamma(c)\<close> call
  nothing, share no parameter name and no call target, and no name holds a keyword; the
  claim gives the module cohesion 0 and the rating "Low". The second disjunct of
  \<^verbatim>\<open>sharedParams\<close> holds for any two functions that both have a parameter: all three pairs
  count, the cohesion is 1 and the rating "High".
\<close>

theorem unrelated_functions_cohesion:
  "(let this = fst (analyzeFile ''lib/util.js'' ''util'' (Some unrelatedTree) (new_analyzer, []))
    in map (\<lambda>f. (name f, params f, calls f)) (heap this) =
         [(''alpha'', [''a''], []), (''beta'', [''b''], []), (''gamma'', [''c''], [])] \<and>
       map (\<lambda>e. (ccohesion e, sharedReferences e, totalPairs e, crating e))
         (fst (calculateCohesion this)) = [(1, Some 3, Some 3, Some ''High'')])"
  by code_simp

subsection \<open>Coupling of functional groups\<close>

text \<open>
  Claim C7, on the code. With \<^verbatim>\<open>socket.on('draw', function(){ generateRoomId(); })\<close> as the
  only code, a function of the group socket-handlers calls a target that holds a keyword of
  the group room-management, and \<^verbatim>\<open>calculateCoupling\<close> reports no pair: it counts the calls
  of the functions of the first group of a pair only. The same call in the other direction,
  \<^verbatim>\<open>function generateRoomId(){ draw(); }\<close>, is counted.
\<close>

theorem coupling_one_direction:
  "(let this = fst (analyzeFile ''server/server.js'' ''server'' (Some handlerTree)
                     (new_analyzer, []))
    in length (modules this) = 1 \<and>
       map (\<lambda>f. (name f, calls f)) (heap this) = [(''socket.on_draw'', [''generateRoomId''])] \<and>
       calculateCoupling this = \<lparr>tightCoupling = 0, looseCoupling = 0, couplingPairs = []\<rparr>) \<and>
   (let this = fst (analyzeFile ''server/server.js'' ''server'' (Some managerTree)
                     (new_analyzer, []))
    in length (modules this) = 1 \<and>
       map (\<lambda>f. (name f, calls f)) (heap this) = [(''generateRoomId'', [''draw''])] \<and>
       calculateCoupling this =
         \<lparr>tightCoupling = 0, looseCoupling = 1,
          couplingPairs = [\<lparr>module1 = ''room-management'', module2 = ''socket-handlers'',
                             pcalls = 1, ptype = ''loose''\<rparr>]\<rparr>)"
  by code_simp

subsection \<open>The file-level call list\<close>

lemma register_fcalls: "fcalls (info (register funcName ps l k b s)) = fcalls (info s)"
  by (simp add: register_def Let_def split: option.splits)

lemma fileCall_fcalls: "fcalls (info (fileCall n l t s)) = fcalls (info s) @ callRecordFor n l t"
  by (simp add: fileCall_def callRecordFor_def split: option.splits)

lemma traverse_fcalls:
  "fcalls (info (traverse n isArg chain s)) =
     fcalls (info s) @ concat (map callRecordOf (subnodes n))"
  "fcalls (info (traverseChildren cs isArg chain s)) =
     fcalls (info s) @ concat (map callRecordOf (subnodesList cs))"
  by (induction n isArg chain s and cs isArg chain s rule: traverse_traverseChildren.induct)
     (simp_all add: register_fcalls fileCall_fcalls Let_def split: prod.splits)

lemma callRecordOf_names:
  "r \<in> set (callRecordOf x) \<Longrightarrow> cname r \<noteq> ''require'' \<and> cname r \<noteq> ''console''"
  by (cases x rule: callRecordOf.cases)
     (auto simp: callRecordFor_def split: option.splits if_splits)

lemma map_of_map_set: "map_of (map_set k v kvs) k = Some v"
  by (induction kvs) auto

text \<open>
  Claim C10, as stated: every \<^verbatim>\<open>CallExpression\<close> node has a record in the file's call list,
  unless the derived name is \<^verbatim>\<open>require\<close> or \<^verbatim>\<open>console\<close>. The call of
  \<^verbatim>\<open>(function(){})()\<close> has no derived name at all, and the file's call list stays empty.
\<close>

theorem file_calls_counterexample:
  "getCalleeName (CallExpression 1 (FunctionExpression 1 None [] (Other ''BlockStatement'' [])) [])
     = None \<and>
   (let this = fst (analyzeFile ''client/main.js'' ''main'' (Some iifeTree) (new_analyzer, []))
    in map (\<lambda>(filePath, m). fcalls m) (modules this) = [[]])"
  by code_simp

text \<open>
  Claim C10, amended. After \<^verbatim>\<open>analyzeFile\<close> of a file that parses, the file's call list is,
  in visiting order, one record for every \<^verbatim>\<open>CallExpression\<close> node and every
  \<^verbatim>\<open>MemberExpression\<close> node of the tree, inside function bodies as well, for which
  \<^verbatim>\<open>getCalleeName\<close> derives a non-empty name other than \<^verbatim>\<open>require\<close> and \<^verbatim>\<open>console\<close>; no
  other node has a record. The call \<^verbatim>\<open>a.b()\<close> has two records named \<^verbatim>\<open>a.b\<close>.
\<close>

theorem file_call_list:
  "(\<exists>m. map_of (modules (fst (analyzeFile p mn (Some ast) (this, c)))) p = Some m \<and>
        fcalls m = concat (map callRecordOf (subnodes ast))) \<and>
   (callRecordOf n \<noteq> [] \<longleftrightarrow>
      (\<exists>x. getCalleeName n = Some x \<and> x \<noteq> [] \<and> x \<noteq> ''require'' \<and> x \<noteq> ''console'')) \<and>
   concat (map callRecordOf
     (subnodes (CallExpression l (MemberExpression l' (Identifier ''a'') (Identifier ''b'')) []))) =
     [\<lparr>cname = ''a.b'', cline = l, ctype = TCallExpression\<rparr>,
      \<lparr>cname = ''a.b'', cline = l', ctype = TMemberExpression\<rparr>]"
proof (intro conjI)
  show "\<exists>m. map_of (modules (fst (analyzeFile p mn (Some ast) (this, c)))) p = Some m \<and>
        fcalls m = concat (map callRecordOf (subnodes ast))"
    by (simp add: analyzeFile_def analyzeAST_def Let_def map_of_map_set traverse_fcalls)
  show "callRecordOf n \<noteq> [] \<longleftrightarrow>
      (\<exists>x. getCalleeName n = Some x \<and> x \<noteq> [] \<and> x \<noteq> ''require'' \<and> x \<noteq> ''console'')"
    by (cases n rule: callRecordOf.cases)
       (auto simp: callRecordFor_def truthy_def split: option.splits node.splits)
  show "concat (map callRecordOf
     (subnodes (CallExpression l (MemberExpression l' (Identifier ''a'') (Identifier ''b'')) []))) =
     [\<lparr>cname = ''a.b'', cline = l, ctype = TCallExpression\<rparr>,
      \<lparr>cname = ''a.b'', cline = l', ctype = TMemberExpression\<rparr>]"
    by (simp add: callRecordFor_def truthy_def name_str_def)
qed

theorem file_call_list_witness:
  "(case map_of (modules (fst (analyzeFile ''server/server.js'' ''server''
                                 (Some (scenarioTree 1 1 2)) (new_analyzer, []))))
           ''server/server.js'' of
      None \<Rightarrow> False
    | Some m \<Rightarrow> fcalls m = [\<lparr>cname = ''helper'', cline = 1, ctype = TCallExpression\<rparr>]) \<and>
   concat (map callRecordOf (subnodes (scenarioTree 1 1 2))) =
     [\<lparr>cname = ''helper'', cline = 1, ctype = TCallExpression\<rparr>]"
proof -
  have e: "concat (map callRecordOf (subnodes (scenarioTree 1 1 2))) =
     [\<lparr>cname = ''helper'', cline = 1, ctype = TCallExpression\<rparr>]"
    by code_simp
  show ?thesis
    using file_call_list [of "''server/server.js''" "''server''" "scenarioTree 1 1 2"
        new_analyzer "[]", THEN conjunct1] e
    by auto
qed

subsection \<open>The deny-list\<close>

lemma memberCallNames_simps:
  "memberCallNames [] = {}"
  "memberCallNames (m # ns) =
     (if isMemberCall m then (case getCalleeName m of Some x \<Rightarrow> {x} | None \<Rightarrow> {}) else {})
       \<union> memberCallNames ns"
  "memberCallNames (ms @ ns) = memberCallNames ms \<union> memberCallNames ns"
  by (auto simp: memberCallNames_def split: option.splits)

lemma recordCall_names:
  "set (calls (recordCall m fi)) \<subseteq>
     set (calls fi) \<union> {x. x \<notin> set builtins} \<union> memberCallNames [m]"
  by (cases "(m, fi)" rule: recordCall.cases)
     (auto simp: memberCallNames_simps split: option.splits node.splits)

lemma extractCalls_names:
  "set (calls (extractCalls n fi)) \<subseteq>
     set (calls fi) \<union> {x. x \<notin> set builtins} \<union> memberCallNames (subnodes n)"
  "set (calls (extractChildren cs fi)) \<subseteq>
     set (calls fi) \<union> {x. x \<notin> set builtins} \<union> memberCallNames (subnodesList cs)"
proof (induction n fi and cs fi rule: extractCalls_extractChildren.induct)
  case (3 l callee args fi)
  let ?N = "CallExpression l callee args"
  have a: "set (calls (extractChildren (callee # args) (recordCall ?N fi))) \<subseteq>
     set (calls (recordCall ?N fi)) \<union> {x. x \<notin> set builtins} \<union>
     memberCallNames (subnodesList (callee # args))"
    by (rule 3)
  have b: "memberCallNames (subnodes ?N) =
     memberCallNames [?N] \<union> memberCallNames (subnodesList (callee # args))"
    by (simp add: memberCallNames_simps)
  have c: "extractCalls ?N fi = extractChildren (callee # args) (recordCall ?N fi)"
    by simp
  show ?case
    unfolding b c using a recordCall_names [of ?N fi] by blast
next
  case (13 c cs fi)
  let ?fi = "if is_function_node c then fi else extractCalls c fi"
  have a: "set (calls (extractChildren cs ?fi)) \<subseteq>
     set (calls ?fi) \<union> {x. x \<notin> set builtins} \<union> memberCallNames (subnodesList cs)"
    by (rule 13)
  have b: "set (calls ?fi) \<subseteq>
     set (calls fi) \<union> {x. x \<notin> set builtins} \<union> memberCallNames (subnodes c)"
    using 13(1) by (cases "is_function_node c") auto
  have c: "memberCallNames (subnodesList (c # cs)) =
     memberCallNames (subnodes c) \<union> memberCallNames (subnodesList cs)"
    by (simp add: memberCallNames_simps)
  have d: "extractChildren (c # cs) fi = extractChildren cs ?fi"
    by simp
  show ?case
    unfolding c d using a b by blast
qed (auto simp: memberCallNames_simps)

text \<open>
  Claim C8, as stated: no recorded call, in a function's outgoing call list or in a file's
  call list, has a deny-listed name. In \<^verbatim>\<open>function later(){ setTimeout(tick);
  this.setInterval(tick); }\<close> the direct call of \<^verbatim>\<open>setTimeout\<close> has a record in the file's
  call list, and the member call puts \<^verbatim>\<open>setInterval\<close> into the function's list and (twice)
  into the file's; both names are on the deny-list.
\<close>

theorem deny_list_counterexample:
  "''setTimeout'' \<in> set builtins \<and> ''setInterval'' \<in> set builtins \<and>
   (let this = fst (analyzeFile ''client/timer.js'' ''timer'' (Some timerTree) (new_analyzer, []))
    in map (\<lambda>f. (name f, calls f)) (heap this) = [(''later'', [''setInterval''])] \<and>
       map (\<lambda>(filePath, m). map cname (fcalls m)) (modules this) =
         [[''setTimeout'', ''setInterval'', ''setInterval'']])"
  by code_simp

text \<open>
  Claim C8, amended. A direct-identifier call whose callee is on the deny-list leaves the
  function's record as it is; a deny-listed name in a function's outgoing call list after
  \<^verbatim>\<open>extractCalls\<close> was in the list before or is the name derived for a member call of the
  tree; and the file's call list omits the names \<^verbatim>\<open>require\<close> and \<^verbatim>\<open>console\<close> only: every
  record the traversal adds has another name.
\<close>

theorem deny_list_scope:
  "(nm \<in> set builtins \<longrightarrow> recordCall (CallExpression l (Identifier nm) args) fi = fi) \<and>
   (\<forall>x \<in> set (calls (extractCalls n fi)).
       x \<in> set (calls fi) \<or> x \<notin> set builtins \<or>
       (\<exists>m \<in> set (subnodes n). isMemberCall m \<and> getCalleeName m = Some x)) \<and>
   (\<forall>r \<in> set (fcalls (info (traverse n isArg chain s))).
       r \<in> set (fcalls (info s)) \<or> (cname r \<noteq> ''require'' \<and> cname r \<noteq> ''console''))"
proof (intro conjI)
  show "nm \<in> set builtins \<longrightarrow> recordCall (CallExpression l (Identifier nm) args) fi = fi"
    by simp
  show "\<forall>x \<in> set (calls (extractCalls n fi)).
       x \<in> set (calls fi) \<or> x \<notin> set builtins \<or>
       (\<exists>m \<in> set (subnodes n). isMemberCall m \<and> getCalleeName m = Some x)"
    using extractCalls_names(1) [of n fi] by (auto simp: memberCallNames_def)
  have "cname r \<noteq> ''require'' \<and> cname r \<noteq> ''console''"
    if "r \<in> set (concat (map callRecordOf ns))" for r ns
    using that callRecordOf_names by auto
  then show "\<forall>r \<in> set (fcalls (info (traverse n isArg chain s))).
       r \<in> set (fcalls (info s)) \<or> (cname r \<noteq> ''require'' \<and> cname r \<noteq> ''console'')"
    unfolding traverse_fcalls(1) by (metis Un_iff set_append)
qed

theorem deny_list_scope_witness:
  "''setTimeout'' \<in> set builtins \<and>
   recordCall (CallExpression 2 (Identifier ''setTimeout'') [Identifier ''tick'']) emptyRecord =
     emptyRecord \<and>
   calls (extractCalls timerBody emptyRecord) = [''setInterval''] \<and>
   map cname (fcalls (info (traverse timerTree False [] emptyScan))) =
     [''setTimeout'', ''setInterval'', ''setInterval'']"
proof -
  have e: "''setTimeout'' \<in> set builtins"
    "calls (extractCalls timerBody emptyRecord) = [''setInterval'']"
    "map cname (fcalls (info (traverse timerTree False [] emptyScan))) =
       [''setTimeout'', ''setInterval'', ''setInterval'']"
    by code_simp+
  show ?thesis
    using deny_list_scope [of "''setTimeout''" 2 "[Identifier ''tick'']" emptyRecord timerBody
        False "[]" emptyScan]
      deny_list_scope [of "''setTimeout''" 2 "[Identifier ''tick'']" emptyRecord timerTree
        False "[]" emptyScan] e
    by simp
qed

subsection \<open>Nested functions\<close>




lemma hollow_function [simp]: "is_function_node (hollow n) = is_function_node n"
  by (cases n) auto

lemma hollow_name [simp]: "name_of (hollow n) = name_of n"
  by (cases n) auto







lemma funs_fileCall [simp]: "funs (fileCall n l t s) = funs s"
  by (simp add: funs_def fileCall_def split: option.splits)

lemma funs_counter [simp]: "funs (s\<lparr>functionCounter := c\<rparr>) = funs s"
  by (simp add: funs_def)

lemma register_counter [simp]: "functionCounter (register n ps l k b s) = functionCounter s"
  by (simp add: register_def Let_def split: option.splits)

lemma fileCall_counter [simp]: "functionCounter (fileCall n l t s) = functionCounter s"
  by (simp add: fileCall_def split: option.splits)



















subsection \<open>Fan-in\<close>

lemma forEach_invariant:
  assumes "forEach f xs s = Some s'" and "P s"
    and "\<And>x t t'. x \<in> set xs \<Longrightarrow> P t \<Longrightarrow> f x t = Some t' \<Longrightarrow> P t'"
  shows "P s'"
  using assms
proof (induction xs arbitrary: s)
  case Nil
  then show ?case by simp
next
  case (Cons x xs)
  from Cons.prems(1) obtain t where t: "f x s = Some t" and r: "forEach f xs t = Some s'"
    by (auto split: option.splits)
  have "P t"
    using Cons.prems(2,3) t by auto
  then show ?case
    using Cons.IH [OF r] Cons.prems(3) by auto
qed

lemma nth_update_any:
  "h[a := x] ! i = (if i = a \<and> a < length h then x else h ! i)"
  by (cases "a < length h") (auto simp: nth_list_update list_update_beyond)

lemma resetFanIn_frame:
  "length (resetFanIn fs h) = length h \<and>
   (\<forall>i. name (resetFanIn fs h ! i) = name (h ! i) \<and> calls (resetFanIn fs h ! i) = calls (h ! i) \<and>
        ffile (resetFanIn fs h ! i) = ffile (h ! i) \<and> line (resetFanIn fs h ! i) = line (h ! i))"
  unfolding resetFanIn_def
  by (induction fs arbitrary: h) (auto simp: nth_update_any split_beta)

lemma resetFanIn_zero:
  "a < length h \<Longrightarrow> a \<in> snd ` set fs \<or> fanIn (h ! a) = 0 \<Longrightarrow> fanIn (resetFanIn fs h ! a) = 0"
  unfolding resetFanIn_def case_prod_beta
proof (induction fs arbitrary: h)
  case Nil
  then show ?case by simp
next
  case (Cons x fs)
  let ?h = "h[snd x := (h ! snd x)\<lparr>fanIn := 0\<rparr>]"
  have "a < length ?h"
    using Cons.prems by simp
  moreover have "a \<in> snd ` set fs \<or> fanIn (?h ! a) = 0"
    using Cons.prems by (auto simp: nth_update_any)
  ultimately have "fanIn (fold (\<lambda>p h. h[snd p := (h ! snd p)\<lparr>fanIn := 0\<rparr>]) fs ?h ! a) = 0"
    by (rule Cons.IH)
  then show ?case
    by simp
qed

lemma newFanInMap_Some:
  "newFanInMap fs a = Some ks \<Longrightarrow> ks = [] \<and> a \<in> snd ` set fs"
  unfolding newFanInMap_def
  by (induction fs) (auto split: if_splits)

lemma newFanInMap_dom:
  "a \<in> snd ` set fs \<Longrightarrow> newFanInMap fs a \<noteq> None"
  unfolding newFanInMap_def
  by (induction fs) (auto split: if_splits)

lemma fanInInv_start:
  "fanInInv this (newFanInMap (afunctions this), resetFanIn (afunctions this) (heap this))"
proof -
  let ?fs = "afunctions this"
  have "fanIn (resetFanIn ?fs (heap this) ! a) = length ks"
    if "newFanInMap ?fs a = Some ks" and "a < length (heap this)" for a ks
    using newFanInMap_Some [OF that(1)] that(2) by (simp add: resetFanIn_zero)
  moreover have "distinct ks \<and> set ks \<subseteq> callerIds this a"
    if "newFanInMap ?fs a = Some ks" for a ks
    using newFanInMap_Some [OF that] by simp
  ultimately show ?thesis
    unfolding fanInInv_def
    using resetFanIn_frame [of ?fs "heap this"] newFanInMap_dom [of _ ?fs]
    by simp
qed

lemma addCaller_inv:
  assumes "fanInInv this st" and "addCaller a k st = Some st'" and "k \<in> callerIds this a"
  shows "fanInInv this st'"
proof -
  obtain fm h where st: "st = (fm, h)"
    by (cases st)
  from assms(2) obtain ks where ks: "fm a = Some ks"
    by (auto simp: addCaller_def st split: option.splits)
  show ?thesis
  proof (cases "k \<in> set ks")
    case True
    then have "st' = st"
      using assms(2) ks by (simp add: addCaller_def st)
    then show ?thesis
      using assms(1) by simp
  next
    case False
    then have st': "st' = (fm(a \<mapsto> ks @ [k]), h[a := (h ! a)\<lparr>fanIn := length (ks @ [k])\<rparr>])"
      using assms(2) ks by (auto simp: addCaller_def st)
    have old: "distinct ks" "set ks \<subseteq> callerIds this a"
      using assms(1) ks by (auto simp: fanInInv_def st)
    show ?thesis
      unfolding st' fanInInv_def
      using assms(1) assms(3) False old
      by (auto simp: fanInInv_def st nth_update_any)
  qed
qed


lemma internalCall_inv:
  assumes "fanInInv this st" and "internalCall func1 func2 st = Some st'"
    and "(filePath, m) \<in> set (modules this)"
    and "func1 \<in> set (mfunctions m)" and "func2 \<in> set (mfunctions m)"
  shows "fanInInv this st'"
proof -
  obtain fm h where st: "st = (fm, h)"
    by (cases st)
  have frame: "name (h ! i) = name (heap this ! i)" "calls (h ! i) = calls (heap this ! i)"
    "line (h ! i) = line (heap this ! i)" for i
    using assms(1) by (simp_all add: fanInInv_def st)
  show ?thesis
  proof (cases "func1 \<noteq> func2 \<and> name (h ! func2) \<in> set (calls (h ! func1))")
    case True
    then have step: "addCaller func2 (callerKey (h ! func1)) st = Some st'"
      using assms(2) by (auto simp: internalCall_def st Let_def filter_empty_conv)
    have "func1 \<in> intraCallers this func2"
      using True assms(3-5) by (auto simp: intraCallers_def frame)
    moreover have "callerKey (h ! func1) = callerKey (heap this ! func1)"
      by (simp add: callerKey_def frame)
    ultimately have "callerKey (h ! func1) \<in> callerIds this func2"
      by (auto simp: callerIds_def)
    then show ?thesis
      using addCaller_inv [OF assms(1) step] by simp
  next
    case False
    then have "st' = st"
      using assms(2) by (auto simp: internalCall_def st Let_def filter_empty_conv split: if_splits)
    then show ?thesis
      using assms(1) by simp
  qed
qed

lemma uniqueFrom_subset: "set (uniqueFrom h seen fs) \<subseteq> set fs"
  by (induction fs arbitrary: seen) auto

lemma internalCalls_inv:
  assumes "fanInInv this st" and "internalCalls m st = Some st'"
    and "(filePath, m) \<in> set (modules this)"
  shows "fanInInv this st'"
proof -
  let ?U = "uniqueFunctions (snd st) (mfunctions m)"
  have U: "set ?U \<subseteq> set (mfunctions m)"
    by (simp add: uniqueFunctions_def uniqueFrom_subset)
  have run: "forEach (\<lambda>func1. forEach (\<lambda>func2. internalCall func1 func2) ?U) ?U st = Some st'"
    using assms(2) by (simp add: internalCalls_def Let_def)
  show ?thesis
  proof (rule forEach_invariant [where P = "fanInInv this", OF run assms(1)])
    fix func1 t t'
    assume f1: "func1 \<in> set ?U" and t: "fanInInv this t"
      and inner: "forEach (\<lambda>func2. internalCall func1 func2) ?U t = Some t'"
    show "fanInInv this t'"
    proof (rule forEach_invariant [where P = "fanInInv this", OF inner t])
      fix func2 u u'
      assume "func2 \<in> set ?U" and "fanInInv this u" and "internalCall func1 func2 u = Some u'"
      then show "fanInInv this u'"
        using internalCall_inv [of this u func1 func2 u' filePath m] assms(3) f1 U by auto
    qed
  qed
qed

lemma externalCall_inv:
  assumes "fanInInv this st" and "externalCall call func st = Some st'"
    and "call \<in> set (acalls this)"
  shows "fanInInv this st'"
proof -
  obtain fm h where st: "st = (fm, h)"
    by (cases st)
  have frame: "name (h ! i) = name (heap this ! i)" "ffile (h ! i) = ffile (heap this ! i)" for i
    using assms(1) by (simp_all add: fanInInv_def st)
  show ?thesis
  proof (cases "cfrom call \<noteq> ffile (h ! func) \<and> cto call = name (h ! func)")
    case True
    then have step: "addCaller func (cfrom call) st = Some st'"
      using assms(2) by (simp add: externalCall_def st)
    have "cfrom call \<in> callerIds this func"
      using True assms(3) by (auto simp: callerIds_def callerFiles_def frame)
    then show ?thesis
      using addCaller_inv [OF assms(1) step] by simp
  next
    case False
    then have "st' = st"
      using assms(2) by (auto simp: externalCall_def st split: if_splits)
    then show ?thesis
      using assms(1) by simp
  qed
qed

lemma functionFanIn_inv:
  assumes "functionFanIn this = Some st"
  shows "fanInInv this st"
proof -
  let ?s0 = "(newFanInMap (afunctions this), resetFanIn (afunctions this) (heap this))"
  from assms obtain s1 where
    one: "forEach (\<lambda>(filePath, m). internalCalls m) (modules this) ?s0 = Some s1" and
    two: "forEach (\<lambda>call. forEach (\<lambda>(key, func). externalCall call func) (afunctions this))
            (acalls this) s1 = Some st"
    by (auto simp: functionFanIn_def split: option.splits)
  have "fanInInv this s1"
  proof (rule forEach_invariant [where P = "fanInInv this", OF one fanInInv_start])
    fix x t t'
    assume "x \<in> set (modules this)" and "fanInInv this t"
      and "(case x of (filePath, m) \<Rightarrow> internalCalls m) t = Some t'"
    then show "fanInInv this t'"
      using internalCalls_inv [of this t "snd x" t' "fst x"] by (simp add: split_beta)
  qed
  then show ?thesis
  proof (rule forEach_invariant [where P = "fanInInv this", OF two])
    fix call t t'
    assume c: "call \<in> set (acalls this)" and t: "fanInInv this t"
      and inner: "forEach (\<lambda>(key, func). externalCall call func) (afunctions this) t = Some t'"
    show "fanInInv this t'"
    proof (rule forEach_invariant [where P = "fanInInv this", OF inner t])
      fix x u u'
      assume "x \<in> set (afunctions this)" and "fanInInv this u"
        and "(case x of (key, func) \<Rightarrow> externalCall call func) u = Some u'"
      then show "fanInInv this u'"
        using externalCall_inv [of this u call "snd x" u'] c by (simp add: split_beta)
    qed
  qed
qed

lemma forEach_total:
  assumes "P s"
    and "\<And>x t. x \<in> set xs \<Longrightarrow> P t \<Longrightarrow> \<exists>t'. f x t = Some t' \<and> P t'"
  shows "\<exists>s'. forEach f xs s = Some s' \<and> P s'"
  using assms
proof (induction xs arbitrary: s)
  case Nil
  then show ?case by simp
next
  case (Cons x xs)
  from Cons.prems obtain t where t: "f x s = Some t" "P t"
    by (meson list.set_intros(1))
  have "\<exists>s'. forEach f xs t = Some s' \<and> P s'"
    using Cons.IH [OF t(2)] Cons.prems(2) by (meson list.set_intros(2))
  then show ?case
    using t(1) by simp
qed

lemma addCaller_total:
  assumes "fanInInv this st" and "a \<in> snd ` set (afunctions this)"
  shows "\<exists>st'. addCaller a k st = Some st'"
  using assms
  by (cases st) (auto simp: fanInInv_def addCaller_def split: option.splits)

lemma internalCall_total:
  assumes "fanInInv this st" and "func2 \<in> snd ` set (afunctions this)"
  shows "\<exists>st'. internalCall func1 func2 st = Some st'"
proof -
  obtain fm h where st: "st = (fm, h)"
    by (cases st)
  show ?thesis
    using addCaller_total [OF assms, of "callerKey (h ! func1)"]
    by (auto simp: internalCall_def st Let_def)
qed

lemma externalCall_total:
  assumes "fanInInv this st" and "func \<in> snd ` set (afunctions this)"
  shows "\<exists>st'. externalCall call func st = Some st'"
proof -
  obtain fm h where st: "st = (fm, h)"
    by (cases st)
  show ?thesis
    using addCaller_total [OF assms, of "cfrom call"]
    by (auto simp: externalCall_def st)
qed

lemma functionFanIn_total:
  assumes "registered this"
  shows "\<exists>st. functionFanIn this = Some st"
proof -
  let ?P = "fanInInv this"
  let ?s0 = "(newFanInMap (afunctions this), resetFanIn (afunctions this) (heap this))"
  have "\<exists>s1. forEach (\<lambda>(filePath, m). internalCalls m) (modules this) ?s0 = Some s1 \<and> ?P s1"
  proof (rule forEach_total [where P = ?P, OF fanInInv_start])
    fix x t
    assume x: "x \<in> set (modules this)" and t: "?P t"
    obtain filePath m where xm: "x = (filePath, m)"
      by (cases x)
    let ?U = "uniqueFunctions (snd t) (mfunctions m)"
    have U: "set ?U \<subseteq> snd ` set (afunctions this)"
      using assms x xm uniqueFrom_subset [of "snd t" "[]" "mfunctions m"]
      by (fastforce simp: uniqueFunctions_def registered_def)
    have "\<exists>t'. forEach (\<lambda>func1. forEach (\<lambda>func2. internalCall func1 func2) ?U) ?U t = Some t' \<and>
       ?P t'"
    proof (rule forEach_total [where P = ?P, OF t])
      fix func1 u
      assume "func1 \<in> set ?U" and u: "?P u"
      show "\<exists>u'. forEach (\<lambda>func2. internalCall func1 func2) ?U u = Some u' \<and> ?P u'"
      proof (rule forEach_total [where P = ?P, OF u])
        fix func2 v
        assume f2: "func2 \<in> set ?U" and v: "?P v"
        then obtain v' where v': "internalCall func1 func2 v = Some v'"
          using internalCall_total [OF v, of func2 func1] U by auto
        have "?P v'"
          using v v' x xm f2 \<open>func1 \<in> set ?U\<close>
            uniqueFrom_subset [of "snd t" "[]" "mfunctions m"]
          by (intro internalCall_inv [of this v func1 func2 v' filePath m])
             (auto simp: uniqueFunctions_def)
        then show "\<exists>v'. internalCall func1 func2 v = Some v' \<and> ?P v'"
          using v' by simp
      qed
    qed
    then have "\<exists>t'. internalCalls m t = Some t' \<and> ?P t'"
      by (simp add: internalCalls_def Let_def)
    then show "\<exists>t'. (case x of (filePath, m) \<Rightarrow> internalCalls m) t = Some t' \<and> ?P t'"
      by (simp add: xm)
  qed
  then obtain s1 where
    one: "forEach (\<lambda>(filePath, m). internalCalls m) (modules this) ?s0 = Some s1" and s1: "?P s1"
    by auto
  have "\<exists>st. forEach (\<lambda>call. forEach (\<lambda>(key, func). externalCall call func) (afunctions this))
            (acalls this) s1 = Some st \<and> ?P st"
  proof (rule forEach_total [where P = ?P, OF s1])
    fix call t
    assume c: "call \<in> set (acalls this)" and t: "?P t"
    show "\<exists>t'. forEach (\<lambda>(key, func). externalCall call func) (afunctions this) t = Some t' \<and>
       ?P t'"
    proof (rule forEach_total [where P = ?P, OF t])
      fix x u
      assume x: "x \<in> set (afunctions this)" and u: "?P u"
      then obtain u' where u': "externalCall call (snd x) u = Some u'"
        using externalCall_total [OF u, of "snd x" call] by auto
      have "?P u'"
        by (rule externalCall_inv [OF u u' c])
      then show "\<exists>u'. (case x of (key, func) \<Rightarrow> externalCall call func) u = Some u' \<and> ?P u'"
        using u' by (simp add: split_beta)
    qed
  qed
  then show ?thesis
    using one by (auto simp: functionFanIn_def)
qed

lemma finite_intraCallers: "finite (intraCallers this func)"
proof -
  have "intraCallers this func \<subseteq> (\<Union>x \<in> set (modules this). set (mfunctions (snd x)))"
    by (auto simp: intraCallers_def)
  then show ?thesis
    by (rule finite_subset) simp
qed

lemma finite_callerFiles: "finite (callerFiles this func)"
proof -
  have "callerFiles this func \<subseteq> cfrom ` set (acalls this)"
    by (auto simp: callerFiles_def)
  then show ?thesis
    by (rule finite_subset) simp
qed

text \<open>
  Claim C2, as stated: the fan-in of a function is at most the number of distinct calling
  functions of the project. With \<^verbatim>\<open>function helper(){}\<close> in one file and \<^verbatim>\<open>helper();\<close> at
  the top level of another, no function of the project calls \<^verbatim>\<open>helper\<close>, and its fan-in
  is 1: a caller from another file is the file.
\<close>

theorem fan_in_counterexample:
  "(case calculateFanInFanOut topLevelProject of
      None \<Rightarrow> False
    | Some this \<Rightarrow>
        map (\<lambda>f. (name f, fanIn f)) (heap this) = [(''helper'', 1)] \<and>
        callingFunctions this 0 = [] \<and>
        \<not> fanIn (heap this ! 0) \<le> length (callingFunctions this 0))"
  by code_simp

text \<open>
  Claim C2, amended. After \<^verbatim>\<open>calculateFanInFanOut\<close>, the fan-in of a function \<open>F\<close> of
  \<^verbatim>\<open>this.functions\<close> is at most the number of distinct functions of \<open>F\<close>'s own module, other
  than \<open>F\<close>, whose outgoing call list holds \<open>F\<close>'s name, plus the number of distinct other files
  with a call edge to \<open>F\<close>'s name. A caller counts once however often it calls \<open>F\<close>; a file
  counts whether its call stands in a function or at the top level. And
  \<^verbatim>\<open>calculateFanInFanOut\<close> does return when every function of a module is one of
  \<^verbatim>\<open>this.functions\<close>.
\<close>

theorem fan_in_bound:
  assumes "(key, func) \<in> set (afunctions this)"
    and "func < length (heap this)"
  shows "(\<forall>this'. calculateFanInFanOut this = Some this' \<longrightarrow>
            fanIn (heap this' ! func) \<le>
              card (intraCallers this func) + card (callerFiles this func)) \<and>
         (registered this \<longrightarrow> (\<exists>this'. calculateFanInFanOut this = Some this'))"
proof (intro conjI allI impI)
  fix this'
  assume "calculateFanInFanOut this = Some this'"
  then obtain fm h where run: "functionFanIn this = Some (fm, h)" and h: "heap this' = h"
    by (auto simp: calculateFanInFanOut_def split: option.splits)
  have inv: "fanInInv this (fm, h)"
    by (rule functionFanIn_inv [OF run])
  have "func \<in> snd ` set (afunctions this)"
    using assms(1) by force
  then obtain ks where ks: "fm func = Some ks"
    using inv by (auto simp: fanInInv_def)
  have d: "distinct ks" and sub: "set ks \<subseteq> callerIds this func"
    and n: "fanIn (h ! func) = length ks"
    using inv ks assms(2) by (auto simp: fanInInv_def)
  have fin: "finite (callerIds this func)"
    by (simp add: callerIds_def finite_intraCallers finite_callerFiles)
  have "length ks = card (set ks)"
    using d by (simp add: distinct_card)
  also have "\<dots> \<le> card (callerIds this func)"
    by (rule card_mono [OF fin sub])
  also have "\<dots> \<le> card ((\<lambda>f. callerKey (heap this ! f)) ` intraCallers this func) +
      card (callerFiles this func)"
    unfolding callerIds_def by (rule card_Un_le)
  also have "\<dots> \<le> card (intraCallers this func) + card (callerFiles this func)"
    by (simp add: card_image_le finite_intraCallers)
  finally show "fanIn (heap this' ! func) \<le>
      card (intraCallers this func) + card (callerFiles this func)"
    by (simp add: h n)
next
  assume "registered this"
  then show "\<exists>this'. calculateFanInFanOut this = Some this'"
    using functionFanIn_total [of this]
    by (auto simp: calculateFanInFanOut_def split: option.splits)
qed

theorem fan_in_bound_witness:
  "(case calculateFanInFanOut twoCallerProject of
      None \<Rightarrow> False
    | Some this \<Rightarrow>
        fanIn (heap this ! 0) = 2 \<and>
        fanIn (heap this ! 0) \<le>
          card (intraCallers twoCallerProject 0) + card (callerFiles twoCallerProject 0)) \<and>
   (''lib/a.js::helper_1'', 0) \<in> set (afunctions twoCallerProject) \<and>
   0 < length (heap twoCallerProject) \<and>
   registered twoCallerProject \<and>
   map (\<lambda>f. (name f, calls f)) (heap twoCallerProject) =
     [(''helper'', []), (''user'', [''helper''])] \<and>
   map cto (acalls twoCallerProject) = [''helper'', ''helper'', ''helper'', ''helper'']"
proof -
  have e: "map_option (\<lambda>this. fanIn (heap this ! 0)) (calculateFanInFanOut twoCallerProject) =
       Some 2"
    "(''lib/a.js::helper_1'', 0) \<in> set (afunctions twoCallerProject)"
    "0 < length (heap twoCallerProject)"
    "map (\<lambda>f. (name f, calls f)) (heap twoCallerProject) =
       [(''helper'', []), (''user'', [''helper''])]"
    "map cto (acalls twoCallerProject) = [''helper'', ''helper'', ''helper'', ''helper'']"
    "registered twoCallerProject"
    by code_simp+
  from e(1) obtain this' where t: "calculateFanInFanOut twoCallerProject = Some this'"
    and n: "fanIn (heap this' ! 0) = 2"
    by auto
  have "fanIn (heap this' ! 0) \<le>
      card (intraCallers twoCallerProject 0) + card (callerFiles twoCallerProject 0)"
    using fan_in_bound [OF e(2) e(3)] t by blast
  then show ?thesis
    using t n e by simp
qed

end
